theory Spec2Isabelle
  imports Main
begin

section \<open>Values of a configuration\<close>

text \<open>
  The component module \<^verbatim>\<open>components/betabrite/__init__.py\<close> declares validation schemas
  over YAML values and a code generator over the validated values. A value is modelled
  as the Python object the YAML loader hands over, or the object a validator returns.
  Strings are lists of 8-bit characters; floating point numbers are not part of the
  model. A time period keeps the one keyword argument its constructor was given.
\<close>

datatype time_unit = Microseconds | Milliseconds | Seconds | Minutes | Hours | Days

datatype time_period = TimePeriod int time_unit

datatype pyvalue =
    PyNone
  | PyBool bool
  | PyInt int
  | PyStr string
  | Lambda string
  | PyList "pyvalue list"
  | PyDict "(string \<times> pyvalue) list"
  | TimePeriodMilliseconds time_period
  | TimePeriodSeconds time_period
  | ID "string option"

text \<open>
  Every raise of the source is a value: \<open>Invalid\<close> is \<^verbatim>\<open>cv.Invalid\<close> with its message,
  \<open>KeyError\<close> a failed subscript. \<open>Unmodelled\<close> is no exception of the program: it marks an
  input on which this model does not say what the library does (a fractional time
  period, an identifier to be checked, a lambda to be compiled), so that a result
  \<open>Inr\<close> or \<open>Inl (Invalid m)\<close> is always one the program itself produces.
\<close>

datatype error = Invalid string | KeyError string | Unmodelled

definition bind_res :: "error + 'a \<Rightarrow> ('a \<Rightarrow> error + 'b) \<Rightarrow> error + 'b" where
  "bind_res r f = (case r of Inl e \<Rightarrow> Inl e | Inr x \<Rightarrow> f x)"

definition map_res :: "('a \<Rightarrow> 'b) \<Rightarrow> error + 'a \<Rightarrow> error + 'b" where
  "map_res f r = (case r of Inl e \<Rightarrow> Inl e | Inr x \<Rightarrow> Inr (f x))"

subsection \<open>Python string operations\<close>

definition lower_char :: "char \<Rightarrow> char" where
  "lower_char c =
     (case map_of (zip ''ABCDEFGHIJKLMNOPQRSTUVWXYZ'' ''abcdefghijklmnopqrstuvwxyz'') c of
        Some l \<Rightarrow> l
      | None \<Rightarrow> c)"

definition lower :: "string \<Rightarrow> string" where
  "lower s = map lower_char s"

definition replace_char :: "char \<Rightarrow> string \<Rightarrow> string \<Rightarrow> string" where
  "replace_char old new s = concat (map (\<lambda>c. if c = old then new else [c]) s)"

definition is_digit :: "char \<Rightarrow> bool" where
  "is_digit c = (c \<in> set ''0123456789'')"

definition digit_val :: "char \<Rightarrow> int" where
  "digit_val c = (case map_of (zip ''0123456789'' [0, 1, 2, 3, 4, 5, 6, 7, 8, 9]) c of
                    Some d \<Rightarrow> d
                  | None \<Rightarrow> 0)"

definition int_of_digits :: "string \<Rightarrow> int" where
  "int_of_digits s = foldl (\<lambda>n c. 10 * n + digit_val c) 0 s"

fun digits :: "nat \<Rightarrow> string" where
  "digits n =
     (if n < 10 then [''0123456789'' ! n]
      else digits (n div 10) @ [''0123456789'' ! (n mod 10)])"

declare digits.simps [simp del]

text \<open>\<^verbatim>\<open>str(n)\<close> of a Python int.\<close>

definition str_int :: "int \<Rightarrow> string" where
  "str_int i = (if i < 0 then CHR ''-'' # digits (nat (- i)) else digits (nat i))"

text \<open>Truth value of an object, as \<^verbatim>\<open>x if x else y\<close> tests it.\<close>

fun truthy :: "pyvalue \<Rightarrow> bool" where
  "truthy PyNone = False"
| "truthy (PyBool b) = b"
| "truthy (PyInt n) = (n \<noteq> 0)"
| "truthy (PyStr s) = (s \<noteq> [])"
| "truthy (PyList xs) = (xs \<noteq> [])"
| "truthy (PyDict d) = (d \<noteq> [])"
| "truthy _ = True"

section \<open>The validators of \<^verbatim>\<open>esphome.config_validation\<close> that the schemas use\<close>

type_synonym validator = "pyvalue \<Rightarrow> error + pyvalue"

definition check_not_templatable :: "pyvalue \<Rightarrow> error + pyvalue" where
  "check_not_templatable v =
     (case v of Lambda _ \<Rightarrow> Inl (Invalid ''This option is not templatable!'') | _ \<Rightarrow> Inr v)"

text \<open>\<^verbatim>\<open>cv.string_strict\<close>: a string and nothing else.\<close>

definition cv_string_strict :: validator where
  "cv_string_strict v =
     bind_res (check_not_templatable v) (\<lambda>v.
       case v of
         PyStr s \<Rightarrow> Inr (PyStr s)
       | _ \<Rightarrow> Inl (Invalid ''Must be string, did you forget putting quotes around the value?''))"

text \<open>
  \<^verbatim>\<open>cv.string\<close>: a string, or a scalar converted with \<^verbatim>\<open>str\<close>; a list, a dictionary, a
  boolean and None are refused.
\<close>

definition cv_string :: validator where
  "cv_string v =
     bind_res (check_not_templatable v) (\<lambda>v.
       case v of
         PyDict _ \<Rightarrow> Inl (Invalid ''string value cannot be dictionary or list.'')
       | PyList _ \<Rightarrow> Inl (Invalid ''string value cannot be dictionary or list.'')
       | PyBool _ \<Rightarrow> Inl (Invalid ''Auto-converted this value to boolean, please wrap the value in quotes.'')
       | PyStr s \<Rightarrow> Inr (PyStr s)
       | PyInt n \<Rightarrow> Inr (PyStr (str_int n))
       | PyNone \<Rightarrow> Inl (Invalid ''string value is None'')
       | _ \<Rightarrow> Inl Unmodelled)"

text \<open>
  \<^verbatim>\<open>cv.one_of(*values, lower=...)\<close>: with \<^verbatim>\<open>lower\<close> the value is first made a string
  (\<^verbatim>\<open>cv.string\<close>), its blanks replaced by the \<^verbatim>\<open>space\<close> argument (a blank by default),
  and lowered; then it has to be one of the values.
\<close>

definition cv_one_of :: "string list \<Rightarrow> bool \<Rightarrow> validator" where
  "cv_one_of values lower_flag v =
     bind_res (if lower_flag
               then bind_res (cv_string v) (\<lambda>v.
                      case v of
                        PyStr s \<Rightarrow> Inr (PyStr (lower (replace_char CHR '' '' '' '' s)))
                      | _ \<Rightarrow> Inl Unmodelled)
               else Inr v) (\<lambda>v.
       case v of
         PyStr s \<Rightarrow> if s \<notin> set values then Inl (Invalid ''Unknown value'') else Inr (PyStr s)
       | _ \<Rightarrow> Inl (Invalid ''Unknown value''))"

text \<open>
  \<^verbatim>\<open>cv.int_\<close>: an int (a bool is one in Python) is returned as it is; a string is parsed
  by \<^verbatim>\<open>int\<close>, modelled for one to eighteen plain decimal digits only.
\<close>

definition cv_int :: validator where
  "cv_int v =
     bind_res (check_not_templatable v) (\<lambda>v.
       case v of
         PyInt n \<Rightarrow> Inr (PyInt n)
       | PyBool b \<Rightarrow> Inr (PyBool b)
       | PyStr s \<Rightarrow>
           if s \<noteq> [] \<and> length s \<le> 18 \<and> list_all is_digit s
           then Inr (PyInt (int_of_digits s))
           else Inl Unmodelled
       | PyNone \<Rightarrow> Inl (Invalid ''Must be string, did you forget putting quotes around the value?'')
       | PyList _ \<Rightarrow> Inl (Invalid ''Must be string, did you forget putting quotes around the value?'')
       | PyDict _ \<Rightarrow> Inl (Invalid ''Must be string, did you forget putting quotes around the value?'')
       | _ \<Rightarrow> Inl Unmodelled)"

text \<open>The integer a validated number compares as: \<^verbatim>\<open>True\<close> is 1 and \<^verbatim>\<open>False\<close> is 0.\<close>

fun int_of :: "pyvalue \<Rightarrow> int option" where
  "int_of (PyInt n) = Some n"
| "int_of (PyBool b) = Some (if b then 1 else 0)"
| "int_of _ = None"

text \<open>\<^verbatim>\<open>Range(min, max)\<close>, both bounds included.\<close>

definition Range :: "int \<Rightarrow> int \<Rightarrow> validator" where
  "Range lo hi v =
     (case int_of v of
        None \<Rightarrow> Inl (Invalid ''invalid value or type (must have a partial ordering)'')
      | Some n \<Rightarrow>
          if \<not> n \<ge> lo then Inl (Invalid ''value must be at least min'')
          else if \<not> n \<le> hi then Inl (Invalid ''value must be at most max'')
          else Inr v)"

text \<open>\<^verbatim>\<open>cv.int_range(min, max)\<close> is \<^verbatim>\<open>All(int_, Range(min, max))\<close>.\<close>

definition cv_int_range :: "int \<Rightarrow> int \<Rightarrow> validator" where
  "cv_int_range lo hi v = bind_res (cv_int v) (Range lo hi)"

definition cv_boolean :: validator where
  "cv_boolean v =
     bind_res (check_not_templatable v) (\<lambda>v.
       case v of
         PyBool b \<Rightarrow> Inr (PyBool b)
       | PyStr s \<Rightarrow>
           if lower s \<in> set [''true'', ''yes'', ''on'', ''enable''] then Inr (PyBool True)
           else if lower s \<in> set [''false'', ''no'', ''off'', ''disable''] then Inr (PyBool False)
           else Inl (Invalid ''Expected boolean value'')
       | _ \<Rightarrow> Inl (Invalid ''Expected boolean value''))"

subsection \<open>Time periods\<close>

definition unit_to_kwarg :: "(string \<times> time_unit) list" where
  "unit_to_kwarg =
     [(''us'', Microseconds), (''microseconds'', Microseconds),
      (''ms'', Milliseconds), (''milliseconds'', Milliseconds),
      (''s'', Seconds), (''sec'', Seconds), (''seconds'', Seconds),
      (''min'', Minutes), (''minutes'', Minutes),
      (''h'', Hours), (''hours'', Hours),
      (''d'', Days), (''days'', Days)]"

text \<open>
  \<^verbatim>\<open>cv.time_period\<close> on a string \<^verbatim>\<open>number unit\<close>. The model covers a number written with
  decimal digits only and below \<open>2 ^ 53\<close> (the library reads it as a float, exact there),
  blanks, and a unit of the table; every other input is left unmodelled.
\<close>

definition time_period :: "pyvalue \<Rightarrow> error + time_period" where
  "time_period v =
     (case v of
        PyStr s \<Rightarrow>
          (let num = takeWhile is_digit s;
               unit = dropWhile (\<lambda>c. c = CHR '' '') (dropWhile is_digit s)
           in if num \<noteq> [] \<and> int_of_digits num < 2 ^ 53
              then (case map_of unit_to_kwarg unit of
                      Some u \<Rightarrow> Inr (TimePeriod (int_of_digits num) u)
                    | None \<Rightarrow> Inl Unmodelled)
              else Inl Unmodelled)
      | _ \<Rightarrow> Inl Unmodelled)"

definition time_period_in_milliseconds :: "time_period \<Rightarrow> error + pyvalue" where
  "time_period_in_milliseconds tp =
     (case tp of TimePeriod n u \<Rightarrow>
        if u = Microseconds \<and> n \<noteq> 0 then Inl (Invalid ''Maximum precision is milliseconds'')
        else Inr (TimePeriodMilliseconds tp))"

definition time_period_in_seconds :: "time_period \<Rightarrow> error + pyvalue" where
  "time_period_in_seconds tp =
     (case tp of TimePeriod n u \<Rightarrow>
        if u = Microseconds \<and> n \<noteq> 0 then Inl (Invalid ''Maximum precision is seconds'')
        else if u = Milliseconds \<and> n \<noteq> 0 then Inl (Invalid ''Maximum precision is seconds'')
        else Inr (TimePeriodSeconds tp))"

text \<open>
  \<^verbatim>\<open>cv.positive_time_period_milliseconds\<close> and \<^verbatim>\<open>cv.positive_time_period_seconds\<close>: the
  period is never negative in the modelled form, so the range check always passes.
\<close>

definition cv_positive_time_period_milliseconds :: validator where
  "cv_positive_time_period_milliseconds v = bind_res (time_period v) time_period_in_milliseconds"

definition cv_positive_time_period_seconds :: validator where
  "cv_positive_time_period_seconds v = bind_res (time_period v) time_period_in_seconds"

fun total_seconds :: "time_period \<Rightarrow> int" where
  "total_seconds (TimePeriod n Days) = n * 24 * 60 * 60"
| "total_seconds (TimePeriod n Hours) = n * 60 * 60"
| "total_seconds (TimePeriod n Minutes) = n * 60"
| "total_seconds (TimePeriod n Seconds) = n"
| "total_seconds (TimePeriod n _) = 0"

fun total_milliseconds :: "time_period \<Rightarrow> int" where
  "total_milliseconds (TimePeriod n Milliseconds) = n"
| "total_milliseconds (TimePeriod n Microseconds) = 0"
| "total_milliseconds tp = total_seconds tp * 1000"

subsection \<open>Identifiers, lists, templates\<close>

text \<open>
  \<^verbatim>\<open>cv.declare_id\<close> and \<^verbatim>\<open>cv.use_id\<close>: a missing identifier becomes an \<^verbatim>\<open>ID\<close> object that the
  framework names or resolves later; the check of a given name is not modelled.
\<close>

definition cv_declare_id :: validator where
  "cv_declare_id v =
     bind_res (check_not_templatable v) (\<lambda>v.
       case v of PyNone \<Rightarrow> Inr (ID None) | _ \<Rightarrow> Inl Unmodelled)"

definition cv_use_id :: validator where
  "cv_use_id v =
     bind_res (check_not_templatable v) (\<lambda>v.
       case v of PyNone \<Rightarrow> Inr (ID None) | _ \<Rightarrow> Inl Unmodelled)"

text \<open>\<^verbatim>\<open>cv.templatable(validator)\<close>: a lambda goes to the lambda compiler, anything else to the validator.\<close>

definition cv_templatable :: "validator \<Rightarrow> validator" where
  "cv_templatable f v = (case v of Lambda _ \<Rightarrow> Inl Unmodelled | _ \<Rightarrow> f v)"

text \<open>
  Validation reports every error it finds, so a value is refused as soon as one part of
  it is: \<open>collect\<close> joins the results of the parts and prefers an \<open>Invalid\<close> to an
  unmodelled part.
\<close>

fun collect :: "(error + 'a list) list \<Rightarrow> error + 'a list" where
  "collect [] = Inr []"
| "collect (r # rs) =
     (case r of
        Inl (Invalid m) \<Rightarrow> Inl (Invalid m)
      | Inl e \<Rightarrow> (case collect rs of Inl (Invalid m) \<Rightarrow> Inl (Invalid m) | _ \<Rightarrow> Inl e)
      | Inr x \<Rightarrow> (case collect rs of Inl e \<Rightarrow> Inl e | Inr xs \<Rightarrow> Inr (x @ xs)))"

text \<open>
  \<^verbatim>\<open>cv.ensure_list(validator)\<close>: None and the empty dictionary are the empty list, a value
  that is no list is a list of one.
\<close>

definition cv_ensure_list :: "validator \<Rightarrow> validator" where
  "cv_ensure_list user v =
     bind_res (check_not_templatable v) (\<lambda>v.
       case v of
         PyNone \<Rightarrow> Inr (PyList [])
       | PyDict [] \<Rightarrow> Inr (PyList [])
       | PyList xs \<Rightarrow> map_res PyList (collect (map (\<lambda>x. map_res (\<lambda>r. [r]) (user x)) xs))
       | _ \<Rightarrow> map_res (\<lambda>r. PyList [r]) (user v))"

subsection \<open>Schemas\<close>

text \<open>
  A schema is the list of its keys, each \<^verbatim>\<open>cv.Required\<close> or \<^verbatim>\<open>cv.Optional\<close> (with its default,
  if it has one) and with the validator of its value. A default is validated like a given
  value. A key of the data that the schema does not have is an error.
\<close>

datatype marker = Required | Optional "pyvalue option"

type_synonym schema = "(string \<times> marker \<times> validator) list"

definition validate_key :: "(string \<times> pyvalue) list \<Rightarrow> string \<times> marker \<times> validator \<Rightarrow> error + (string \<times> pyvalue) list" where
  "validate_key d e =
     (case e of (k, m, f) \<Rightarrow>
        (case map_of d k of
           Some v \<Rightarrow> map_res (\<lambda>r. [(k, r)]) (f v)
         | None \<Rightarrow>
             (case m of
                Required \<Rightarrow> Inl (Invalid ''required key not provided'')
              | Optional None \<Rightarrow> Inr []
              | Optional (Some dv) \<Rightarrow> map_res (\<lambda>r. [(k, r)]) (f dv))))"

definition cv_Schema :: "schema \<Rightarrow> validator" where
  "cv_Schema S v =
     (case v of
        PyDict d \<Rightarrow>
          if \<exists>k \<in> set (map fst d). k \<notin> set (map fst S)
          then Inl (Invalid ''extra keys not allowed'')
          else map_res PyDict (collect (map (validate_key d) S))
      | _ \<Rightarrow> Inl (Invalid ''expected a dictionary''))"

text \<open>\<^verbatim>\<open>schema.extend(other)\<close>: the keys of both, those of \<open>other\<close> replacing equal ones.\<close>

definition schema_extend :: "schema \<Rightarrow> schema \<Rightarrow> schema" where
  "schema_extend S T = filter (\<lambda>e. fst e \<notin> set (map fst T)) S @ T"

text \<open>\<^verbatim>\<open>cv.GenerateID(key)\<close> is an optional key whose default is None.\<close>

definition GenerateID :: marker where
  "GenerateID = Optional (Some PyNone)"

text \<open>
  \<^verbatim>\<open>cv.COMPONENT_SCHEMA\<close> and \<^verbatim>\<open>uart.UART_DEVICE_SCHEMA\<close>: the keys they add; the value of
  \<^verbatim>\<open>setup_priority\<close> is a float and left unmodelled.
\<close>

definition COMPONENT_SCHEMA :: schema where
  "COMPONENT_SCHEMA = [(''setup_priority'', Optional None, \<lambda>v. Inl Unmodelled)]"

definition UART_DEVICE_SCHEMA :: schema where
  "UART_DEVICE_SCHEMA = [(''uart_id'', GenerateID, cv_use_id)]"

section \<open>The component: keys, option lists, schemas\<close>

definition CONF_ID :: string where "CONF_ID = ''id''"
definition CONF_SIGN_TYPE :: string where "CONF_SIGN_TYPE = ''sign_type''"
definition CONF_ADDRESS :: string where "CONF_ADDRESS = ''address''"
definition CONF_MAX_FILES :: string where "CONF_MAX_FILES = ''max_files''"
definition CONF_DEFAULTS :: string where "CONF_DEFAULTS = ''defaults''"
definition CONF_OFFLINE_MESSAGES :: string where "CONF_OFFLINE_MESSAGES = ''offline_messages''"
definition CONF_CLOCK :: string where "CONF_CLOCK = ''clock''"
definition CONF_PRIORITY :: string where "CONF_PRIORITY = ''priority''"
definition CONF_COLOR :: string where "CONF_COLOR = ''color''"
definition CONF_MODE :: string where "CONF_MODE = ''mode''"
definition CONF_CHARSET :: string where "CONF_CHARSET = ''charset''"
definition CONF_POSITION :: string where "CONF_POSITION = ''position''"
definition CONF_SPEED :: string where "CONF_SPEED = ''speed''"
definition CONF_EFFECT :: string where "CONF_EFFECT = ''effect''"
definition CONF_TEXT :: string where "CONF_TEXT = ''text''"
definition CONF_DURATION :: string where "CONF_DURATION = ''duration''"
definition CONF_ENABLED :: string where "CONF_ENABLED = ''enabled''"
definition CONF_INTERVAL :: string where "CONF_INTERVAL = ''interval''"
definition CONF_FORMAT :: string where "CONF_FORMAT = ''format''"
definition CONF_WARNING_DURATION :: string where "CONF_WARNING_DURATION = ''warning_duration''"
definition CONF_DEFAULT_DURATION :: string where "CONF_DEFAULT_DURATION = ''default_duration''"

lemmas conf_defs =
  CONF_ID_def CONF_SIGN_TYPE_def CONF_ADDRESS_def CONF_MAX_FILES_def CONF_DEFAULTS_def
  CONF_OFFLINE_MESSAGES_def CONF_CLOCK_def CONF_PRIORITY_def CONF_COLOR_def CONF_MODE_def
  CONF_CHARSET_def CONF_POSITION_def CONF_SPEED_def CONF_EFFECT_def CONF_TEXT_def
  CONF_DURATION_def CONF_ENABLED_def CONF_INTERVAL_def CONF_FORMAT_def
  CONF_WARNING_DURATION_def CONF_DEFAULT_DURATION_def

definition SIGN_TYPES :: "(string \<times> string) list" where
  "SIGN_TYPES =
     [(''all'', ''ST_ALL''),
      (''betabrite'', ''ST_BETABRITE''),
      (''1line'', ''ST_1LINE''),
      (''2line'', ''ST_2LINE''),
      (''alphavision'', ''ST_ALPHA_VISION''),
      (''alphaeclipse'', ''ST_ALPHA_ECLIPSE_3600''),
      (''alphapremiere'', ''ST_ALPHA_PREMIERE'')]"

definition COLORS :: "string list" where
  "COLORS =
     [''red'', ''green'', ''amber'', ''dimred'', ''dimgreen'', ''brown'',
      ''orange'', ''yellow'', ''rainbow1'', ''rainbow2'', ''colormix'', ''autocolor'']"

definition MODES :: "string list" where
  "MODES =
     [''rotate'', ''hold'', ''flash'', ''rollup'', ''rolldown'', ''rollleft'',
      ''rollright'', ''wipeup'', ''wipedown'', ''wipeleft'', ''wiperight'',
      ''scroll'', ''special'', ''automode'', ''rollin'', ''rollout'',
      ''wipein'', ''wipeout'', ''comprotate'', ''explode'', ''clock'']"

definition EFFECTS :: "string list" where
  "EFFECTS =
     [''twinkle'', ''sparkle'', ''snow'', ''interlock'', ''switch'', ''slide'',
      ''spray'', ''starburst'', ''welcome'', ''slots'', ''newsflash'', ''trumpet'',
      ''cyclecolors'', ''thankyou'', ''nosmoking'', ''dontdrinkanddrive'',
      ''fishimal'', ''fireworks'', ''turballoon'', ''bomb'']"

definition CHARSETS :: "string list" where
  "CHARSETS =
     [''5high'', ''5stroke'', ''7high'', ''7stroke'', ''7highfancy'',
      ''10high'', ''7shadow'', ''fhighfancy'', ''fhigh'', ''7shadowfancy'',
      ''5wide'', ''7wide'', ''7widefancy'', ''5widestroke'']"

definition POSITIONS :: "string list" where
  "POSITIONS = [''midline'', ''topline'', ''botline'', ''fill'', ''left'', ''right'']"

definition CLOCK_FORMATS :: "string list" where
  "CLOCK_FORMATS = [''12h'', ''24h'']"

definition validate_address :: validator where
  "validate_address v =
     bind_res (cv_string_strict v) (\<lambda>v.
       case v of
         PyStr s \<Rightarrow>
           if length s \<noteq> 2 then Inl (Invalid ''Address must be exactly 2 characters'')
           else Inr (PyStr s)
       | _ \<Rightarrow> Inl Unmodelled)"

definition OFFLINE_MESSAGE_SCHEMA_keys :: schema where
  "OFFLINE_MESSAGE_SCHEMA_keys =
     [(CONF_TEXT, Required, cv_string),
      (CONF_COLOR, Optional (Some (PyStr ''green'')), cv_one_of COLORS True),
      (CONF_MODE, Optional (Some (PyStr ''rotate'')), cv_one_of MODES True),
      (CONF_DURATION, Optional (Some (PyStr ''10s'')), cv_positive_time_period_milliseconds),
      (CONF_EFFECT, Optional None, cv_one_of EFFECTS True),
      (CONF_CHARSET, Optional (Some (PyStr ''7high'')), cv_one_of CHARSETS True),
      (CONF_POSITION, Optional (Some (PyStr ''topline'')), cv_one_of POSITIONS True),
      (CONF_SPEED, Optional (Some (PyInt 3)), cv_int_range 1 5)]"

definition OFFLINE_MESSAGE_SCHEMA :: validator where
  "OFFLINE_MESSAGE_SCHEMA = cv_Schema OFFLINE_MESSAGE_SCHEMA_keys"

definition DEFAULTS_SCHEMA_keys :: schema where
  "DEFAULTS_SCHEMA_keys =
     [(CONF_COLOR, Optional (Some (PyStr ''green'')), cv_one_of COLORS True),
      (CONF_MODE, Optional (Some (PyStr ''rotate'')), cv_one_of MODES True),
      (CONF_CHARSET, Optional (Some (PyStr ''7high'')), cv_one_of CHARSETS True),
      (CONF_POSITION, Optional (Some (PyStr ''topline'')), cv_one_of POSITIONS True),
      (CONF_SPEED, Optional (Some (PyInt 3)), cv_int_range 1 5),
      (CONF_EFFECT, Optional (Some (PyStr ''twinkle'')), cv_one_of EFFECTS True)]"

definition DEFAULTS_SCHEMA :: validator where
  "DEFAULTS_SCHEMA = cv_Schema DEFAULTS_SCHEMA_keys"

definition CLOCK_SCHEMA_keys :: schema where
  "CLOCK_SCHEMA_keys =
     [(CONF_ENABLED, Optional (Some (PyBool True)), cv_boolean),
      (CONF_INTERVAL, Optional (Some (PyStr ''60s'')), cv_positive_time_period_milliseconds),
      (CONF_DURATION, Optional (Some (PyStr ''4s'')), cv_positive_time_period_milliseconds),
      (CONF_FORMAT, Optional (Some (PyStr ''12h'')), cv_one_of CLOCK_FORMATS True),
      (CONF_COLOR, Optional (Some (PyStr ''amber'')), cv_one_of COLORS True)]"

definition CLOCK_SCHEMA :: validator where
  "CLOCK_SCHEMA = cv_Schema CLOCK_SCHEMA_keys"

definition PRIORITY_SCHEMA_keys :: schema where
  "PRIORITY_SCHEMA_keys =
     [(CONF_WARNING_DURATION, Optional (Some (PyStr ''2500ms'')), cv_positive_time_period_milliseconds),
      (CONF_DEFAULT_DURATION, Optional (Some (PyStr ''25s'')), cv_positive_time_period_milliseconds)]"

definition PRIORITY_SCHEMA :: validator where
  "PRIORITY_SCHEMA = cv_Schema PRIORITY_SCHEMA_keys"

definition CONFIG_SCHEMA_keys :: schema where
  "CONFIG_SCHEMA_keys =
     schema_extend (schema_extend
       [(CONF_ID, GenerateID, cv_declare_id),
        (CONF_SIGN_TYPE, Optional (Some (PyStr ''all'')), cv_one_of (map fst SIGN_TYPES) True),
        (CONF_ADDRESS, Optional (Some (PyStr ''00'')), validate_address),
        (CONF_MAX_FILES, Optional (Some (PyInt 5)), cv_int_range 1 26),
        (CONF_DEFAULTS, Optional None, DEFAULTS_SCHEMA),
        (CONF_OFFLINE_MESSAGES, Optional None, cv_ensure_list OFFLINE_MESSAGE_SCHEMA),
        (CONF_CLOCK, Optional None, CLOCK_SCHEMA),
        (CONF_PRIORITY, Optional None, PRIORITY_SCHEMA)]
       COMPONENT_SCHEMA) UART_DEVICE_SCHEMA"

definition CONFIG_SCHEMA :: validator where
  "CONFIG_SCHEMA = cv_Schema CONFIG_SCHEMA_keys"

section \<open>Code generation\<close>

text \<open>
  \<^verbatim>\<open>cg.add\<close> appends a statement to the generated program. A statement is a method call
  on the component variable with its argument expressions, or one of the framework's own
  registrations, whose content is not modelled.
\<close>

datatype expr =
    IntLiteral int
  | BoolLiteral bool
  | StringLiteral string
  | RawExpression string
  | NamespaceMember string

datatype statement =
    New_Pvariable pyvalue
  | Register_component
  | Register_uart_device
  | Add string "expr list"

text \<open>
  \<^verbatim>\<open>cg.safe_exp\<close>: the literal of a value. A time period in milliseconds is the integer of
  its milliseconds, one in seconds the integer of its seconds.
\<close>

fun safe_exp :: "pyvalue \<Rightarrow> error + expr" where
  "safe_exp (PyBool b) = Inr (BoolLiteral b)"
| "safe_exp (PyStr s) = Inr (StringLiteral s)"
| "safe_exp (PyInt n) = Inr (IntLiteral n)"
| "safe_exp (TimePeriodMilliseconds tp) = Inr (IntLiteral (total_milliseconds tp))"
| "safe_exp (TimePeriodSeconds tp) = Inr (IntLiteral (total_seconds tp))"
| "safe_exp _ = Inl Unmodelled"

text \<open>The text an f-string puts for a value.\<close>

fun format_value :: "pyvalue \<Rightarrow> error + string" where
  "format_value (PyStr s) = Inr s"
| "format_value (PyInt n) = Inr (str_int n)"
| "format_value (PyBool b) = Inr (if b then ''True'' else ''False'')"
| "format_value PyNone = Inr ''None''"
| "format_value _ = Inl Unmodelled"

text \<open>\<^verbatim>\<open>d[k]\<close>, \<^verbatim>\<open>k in d\<close> and \<^verbatim>\<open>d.get(k, default)\<close> on a dictionary.\<close>

definition getitem :: "pyvalue \<Rightarrow> string \<Rightarrow> error + pyvalue" where
  "getitem d k =
     (case d of
        PyDict kvs \<Rightarrow> (case map_of kvs k of Some v \<Rightarrow> Inr v | None \<Rightarrow> Inl (KeyError k))
      | _ \<Rightarrow> Inl Unmodelled)"

definition contains :: "pyvalue \<Rightarrow> string \<Rightarrow> error + bool" where
  "contains d k =
     (case d of
        PyDict kvs \<Rightarrow> Inr (map_of kvs k \<noteq> None)
      | _ \<Rightarrow> Inl Unmodelled)"

definition get_default :: "pyvalue \<Rightarrow> string \<Rightarrow> pyvalue \<Rightarrow> error + pyvalue" where
  "get_default d k dflt =
     (case d of
        PyDict kvs \<Rightarrow> (case map_of kvs k of Some v \<Rightarrow> Inr v | None \<Rightarrow> Inr dflt)
      | _ \<Rightarrow> Inl Unmodelled)"

text \<open>\<^verbatim>\<open>cg.RawExpression(f"esphome::betabrite::NAME(\"{value}\")")\<close>\<close>

definition from_string :: "string \<Rightarrow> pyvalue \<Rightarrow> error + expr" where
  "from_string name v =
     bind_res (format_value v) (\<lambda>s.
       Inr (RawExpression (''esphome::betabrite::'' @ name @ [CHR ''('', CHR 0x22] @ s @ [CHR 0x22, CHR '')''])))"

text \<open>The four optional blocks of \<^verbatim>\<open>to_code\<close>, in the order of the source.\<close>

definition to_code_defaults :: "pyvalue \<Rightarrow> error + statement list" where
  "to_code_defaults config =
     bind_res (contains config CONF_DEFAULTS) (\<lambda>present.
       if present then
         bind_res (getitem config CONF_DEFAULTS) (\<lambda>defaults.
         bind_res (getitem defaults CONF_COLOR) (\<lambda>color.
         bind_res (from_string ''color_from_string'' color) (\<lambda>color_exp.
         bind_res (getitem defaults CONF_MODE) (\<lambda>mode.
         bind_res (from_string ''mode_from_string'' mode) (\<lambda>mode_exp.
         bind_res (getitem defaults CONF_CHARSET) (\<lambda>charset.
         bind_res (from_string ''charset_from_string'' charset) (\<lambda>charset_exp.
         bind_res (getitem defaults CONF_POSITION) (\<lambda>position.
         bind_res (from_string ''position_from_string'' position) (\<lambda>position_exp.
         bind_res (getitem defaults CONF_SPEED) (\<lambda>speed.
         bind_res (safe_exp speed) (\<lambda>speed_exp.
         bind_res (getitem defaults CONF_EFFECT) (\<lambda>effect.
         bind_res (from_string ''effect_from_string'' effect) (\<lambda>effect_exp.
           Inr [Add ''set_default_color'' [color_exp],
                Add ''set_default_mode'' [mode_exp],
                Add ''set_default_charset'' [charset_exp],
                Add ''set_default_position'' [position_exp],
                Add ''set_default_speed'' [speed_exp],
                Add ''set_default_effect'' [effect_exp]])))))))))))))
       else Inr [])"

definition to_code_clock :: "pyvalue \<Rightarrow> error + statement list" where
  "to_code_clock config =
     bind_res (contains config CONF_CLOCK) (\<lambda>present.
       if present then
         bind_res (getitem config CONF_CLOCK) (\<lambda>clock.
         bind_res (getitem clock CONF_ENABLED) (\<lambda>enabled.
         bind_res (safe_exp enabled) (\<lambda>enabled_exp.
         bind_res (getitem clock CONF_INTERVAL) (\<lambda>interval.
         bind_res (safe_exp interval) (\<lambda>interval_exp.
         bind_res (getitem clock CONF_DURATION) (\<lambda>duration.
         bind_res (safe_exp duration) (\<lambda>duration_exp.
         bind_res (getitem clock CONF_FORMAT) (\<lambda>format.
         bind_res (getitem clock CONF_COLOR) (\<lambda>color.
         bind_res (from_string ''color_from_string'' color) (\<lambda>color_exp.
           Inr [Add ''set_clock_enabled'' [enabled_exp],
                Add ''set_clock_interval'' [interval_exp],
                Add ''set_clock_duration'' [duration_exp],
                Add ''set_clock_24h'' [BoolLiteral (format = PyStr ''24h'')],
                Add ''set_clock_color'' [color_exp]]))))))))))
       else Inr [])"

definition to_code_priority :: "pyvalue \<Rightarrow> error + statement list" where
  "to_code_priority config =
     bind_res (contains config CONF_PRIORITY) (\<lambda>present.
       if present then
         bind_res (getitem config CONF_PRIORITY) (\<lambda>priority.
         bind_res (getitem priority CONF_WARNING_DURATION) (\<lambda>warning_duration.
         bind_res (safe_exp warning_duration) (\<lambda>warning_exp.
         bind_res (getitem priority CONF_DEFAULT_DURATION) (\<lambda>default_duration.
         bind_res (safe_exp default_duration) (\<lambda>default_exp.
           Inr [Add ''set_priority_warning_duration'' [warning_exp],
                Add ''set_priority_default_duration'' [default_exp]])))))
       else Inr [])"

text \<open>The body of the loop over the offline messages: one \<^verbatim>\<open>add_offline_message\<close> call.\<close>

definition add_offline_message :: "pyvalue \<Rightarrow> error + statement" where
  "add_offline_message msg =
     bind_res (get_default msg CONF_EFFECT (PyStr [])) (\<lambda>effect.
     bind_res (getitem msg CONF_TEXT) (\<lambda>text.
     bind_res (getitem msg CONF_COLOR) (\<lambda>color.
     bind_res (getitem msg CONF_MODE) (\<lambda>mode.
     bind_res (getitem msg CONF_DURATION) (\<lambda>duration.
     bind_res (getitem msg CONF_CHARSET) (\<lambda>charset.
     bind_res (getitem msg CONF_POSITION) (\<lambda>position.
     bind_res (getitem msg CONF_SPEED) (\<lambda>speed.
     bind_res (safe_exp text) (\<lambda>text_exp.
     bind_res (safe_exp color) (\<lambda>color_exp.
     bind_res (safe_exp mode) (\<lambda>mode_exp.
     bind_res (safe_exp duration) (\<lambda>duration_exp.
     bind_res (safe_exp (if truthy effect then effect else PyStr [])) (\<lambda>effect_exp.
     bind_res (safe_exp charset) (\<lambda>charset_exp.
     bind_res (safe_exp position) (\<lambda>position_exp.
     bind_res (safe_exp speed) (\<lambda>speed_exp.
       Inr (Add ''add_offline_message''
              [text_exp, color_exp, mode_exp, duration_exp, effect_exp, charset_exp,
               position_exp, speed_exp])))))))))))))))))"

fun offline_loop :: "pyvalue list \<Rightarrow> error + statement list" where
  "offline_loop [] = Inr []"
| "offline_loop (msg # msgs) =
     bind_res (add_offline_message msg) (\<lambda>stmt.
     bind_res (offline_loop msgs) (\<lambda>stmts. Inr (stmt # stmts)))"

definition to_code_offline_messages :: "pyvalue \<Rightarrow> error + statement list" where
  "to_code_offline_messages config =
     bind_res (contains config CONF_OFFLINE_MESSAGES) (\<lambda>present.
       if present then
         bind_res (getitem config CONF_OFFLINE_MESSAGES) (\<lambda>messages.
           case messages of
             PyList msgs \<Rightarrow> offline_loop msgs
           | _ \<Rightarrow> Inl Unmodelled)
       else Inr [])"

definition to_code :: "pyvalue \<Rightarrow> error + statement list" where
  "to_code config =
     bind_res (getitem config CONF_ID) (\<lambda>var_id.
     bind_res (getitem config CONF_SIGN_TYPE) (\<lambda>sign_type_key.
     bind_res (case sign_type_key of
                 PyStr k \<Rightarrow> (case map_of SIGN_TYPES k of
                               Some t \<Rightarrow> Inr t
                             | None \<Rightarrow> Inl (KeyError k))
               | _ \<Rightarrow> Inl Unmodelled) (\<lambda>sign_type.
     bind_res (getitem config CONF_ADDRESS) (\<lambda>address.
     bind_res (safe_exp address) (\<lambda>address_exp.
     bind_res (getitem config CONF_MAX_FILES) (\<lambda>max_files.
     bind_res (safe_exp max_files) (\<lambda>max_files_exp.
     bind_res (to_code_defaults config) (\<lambda>defaults_code.
     bind_res (to_code_clock config) (\<lambda>clock_code.
     bind_res (to_code_priority config) (\<lambda>priority_code.
     bind_res (to_code_offline_messages config) (\<lambda>offline_code.
       Inr ([New_Pvariable var_id, Register_component, Register_uart_device,
             Add ''set_sign_type'' [NamespaceMember sign_type],
             Add ''set_address'' [address_exp],
             Add ''set_max_files'' [max_files_exp]]
            @ defaults_code @ clock_code @ priority_code @ offline_code))))))))))))"

text \<open>
  The framework validates a component's block with its \<^verbatim>\<open>CONFIG_SCHEMA\<close> and calls
  \<^verbatim>\<open>to_code\<close> on the validated result only.
\<close>

definition build :: "pyvalue \<Rightarrow> error + statement list" where
  "build raw = bind_res (CONFIG_SCHEMA raw) to_code"

subsection \<open>The action \<^verbatim>\<open>betabrite.priority\<close>\<close>

definition PRIORITY_MESSAGE_ACTION_SCHEMA_keys :: schema where
  "PRIORITY_MESSAGE_ACTION_SCHEMA_keys =
     [(CONF_ID, GenerateID, cv_use_id),
      (CONF_TEXT, Required, cv_templatable cv_string),
      (CONF_DURATION, Optional (Some (PyStr ''25s'')), cv_templatable cv_positive_time_period_seconds)]"

definition PRIORITY_MESSAGE_ACTION_SCHEMA :: validator where
  "PRIORITY_MESSAGE_ACTION_SCHEMA = cv_Schema PRIORITY_MESSAGE_ACTION_SCHEMA_keys"

text \<open>\<^verbatim>\<open>cg.templatable(value, args, type)\<close>: a value that is no lambda is returned as it is.\<close>

definition cg_templatable :: "pyvalue \<Rightarrow> error + pyvalue" where
  "cg_templatable v = (case v of Lambda _ \<Rightarrow> Inl Unmodelled | _ \<Rightarrow> Inr v)"

definition betabrite_priority_action_to_code :: "pyvalue \<Rightarrow> error + statement list" where
  "betabrite_priority_action_to_code config =
     bind_res (getitem config CONF_ID) (\<lambda>parent.
     bind_res (getitem config CONF_TEXT) (\<lambda>text.
     bind_res (cg_templatable text) (\<lambda>text_template.
     bind_res (safe_exp text_template) (\<lambda>text_exp.
     bind_res (getitem config CONF_DURATION) (\<lambda>duration.
     bind_res (cg_templatable duration) (\<lambda>duration_template.
     bind_res (safe_exp duration_template) (\<lambda>duration_exp.
       Inr [New_Pvariable parent,
            Add ''set_message'' [text_exp],
            Add ''set_duration'' [duration_exp]])))))))"

text \<open>The framework validates an action with its schema and then generates its code.\<close>

definition build_priority_action :: "pyvalue \<Rightarrow> error + statement list" where
  "build_priority_action raw =
     bind_res (PRIORITY_MESSAGE_ACTION_SCHEMA raw) betabrite_priority_action_to_code"

section \<open>The feed utility \<^verbatim>\<open>updateFeed.py\<close>\<close>


datatype json =
    JNull
  | JBool bool
  | JInt int
  | JStr string
  | JList "json list"
  | JDict "(string \<times> json) list"




definition RSS_FEED :: string where "RSS_FEED = ''https://ctvnews.ca/rss/TopStories''"

subsection \<open>\<^verbatim>\<open>getNews\<close>\<close>






subsection \<open>\<^verbatim>\<open>getJokes\<close>, \<^verbatim>\<open>getFacts\<close>, \<^verbatim>\<open>getTrivia\<close>\<close>











subsection \<open>\<^verbatim>\<open>sendToMqtt\<close> and \<^verbatim>\<open>main\<close>\<close>










section \<open>Notions used to state the properties\<close>

text \<open>
  What an accepted dictionary \<open>d\<close>, validated to \<open>kvs\<close>, says about one key of the
  schema: a given value was accepted by the key's validator, a missing one was replaced
  by the validated default, and a missing key without default stays missing.
\<close>

definition field_ok :: "(string \<times> pyvalue) list \<Rightarrow> (string \<times> pyvalue) list \<Rightarrow> string \<times> marker \<times> validator \<Rightarrow> bool" where
  "field_ok d kvs e =
     (case e of (k, m, f) \<Rightarrow>
       (case map_of d k of
          Some v \<Rightarrow> (\<exists>r. f v = Inr r \<and> map_of kvs k = Some r)
        | None \<Rightarrow>
            (case m of
               Required \<Rightarrow> False
             | Optional None \<Rightarrow> map_of kvs k = None
             | Optional (Some dv) \<Rightarrow> (\<exists>r. f dv = Inr r \<and> map_of kvs k = Some r))))"

text \<open>A value that the YAML loader can hand over, as opposed to an object a validator returns.\<close>

fun loaded :: "pyvalue \<Rightarrow> bool" where
  "loaded (TimePeriodMilliseconds tp) = False"
| "loaded (TimePeriodSeconds tp) = False"
| "loaded (ID i) = False"
| "loaded v = True"

text \<open>Membership in an option list, compared without regard to case.\<close>

definition member_ci :: "string list \<Rightarrow> pyvalue \<Rightarrow> bool" where
  "member_ci L v = (case v of PyStr s \<Rightarrow> lower s \<in> lower ` set L | _ \<Rightarrow> False)"

definition option_lists :: "string list list" where
  "option_lists = [COLORS, MODES, EFFECTS, CHARSETS, POSITIONS, map fst SIGN_TYPES, CLOCK_FORMATS]"

text \<open>
  The values that a configuration gives for color, mode, effect, charset, position, sign
  type and clock format, each with the list of its options: at the top level, in the
  \<^verbatim>\<open>defaults\<close> block, in each offline message (a single message stands for a list of one)
  and in the \<^verbatim>\<open>clock\<close> block.
\<close>

definition block_values :: "(string \<times> string list) list \<Rightarrow> pyvalue \<Rightarrow> (string list \<times> pyvalue) list" where
  "block_values opts block =
     (case block of
        PyDict d \<Rightarrow>
          concat (map (\<lambda>(k, L). case map_of d k of Some v \<Rightarrow> [(L, v)] | None \<Rightarrow> []) opts)
      | _ \<Rightarrow> [])"

definition message_options :: "(string \<times> string list) list" where
  "message_options =
     [(CONF_COLOR, COLORS), (CONF_MODE, MODES), (CONF_EFFECT, EFFECTS),
      (CONF_CHARSET, CHARSETS), (CONF_POSITION, POSITIONS)]"

definition clock_options :: "(string \<times> string list) list" where
  "clock_options = [(CONF_FORMAT, CLOCK_FORMATS), (CONF_COLOR, COLORS)]"

definition enum_values :: "pyvalue \<Rightarrow> (string list \<times> pyvalue) list" where
  "enum_values raw =
     (case raw of
        PyDict d \<Rightarrow>
          block_values [(CONF_SIGN_TYPE, map fst SIGN_TYPES)] raw
          @ (case map_of d CONF_DEFAULTS of
               Some block \<Rightarrow> block_values message_options block
             | None \<Rightarrow> [])
          @ (case map_of d CONF_OFFLINE_MESSAGES of
               Some (PyList msgs) \<Rightarrow> concat (map (block_values message_options) msgs)
             | Some block \<Rightarrow> block_values message_options block
             | None \<Rightarrow> [])
          @ (case map_of d CONF_CLOCK of
               Some block \<Rightarrow> block_values clock_options block
             | None \<Rightarrow> [])
      | _ \<Rightarrow> [])"

text \<open>
  The arguments of the call for one validated offline message: the literal of each field,
  in the order text, color, mode, duration, effect, charset, position, speed, with the
  empty string for a message that has no effect.
\<close>

definition message_arguments :: "pyvalue \<Rightarrow> (error + expr) list" where
  "message_arguments msg =
     [bind_res (getitem msg CONF_TEXT) safe_exp,
      bind_res (getitem msg CONF_COLOR) safe_exp,
      bind_res (getitem msg CONF_MODE) safe_exp,
      bind_res (getitem msg CONF_DURATION) safe_exp,
      bind_res (contains msg CONF_EFFECT) (\<lambda>present.
        if present then bind_res (getitem msg CONF_EFFECT) safe_exp else Inr (StringLiteral [])),
      bind_res (getitem msg CONF_CHARSET) safe_exp,
      bind_res (getitem msg CONF_POSITION) safe_exp,
      bind_res (getitem msg CONF_SPEED) safe_exp]"

definition is_offline_call :: "statement \<Rightarrow> bool" where
  "is_offline_call s = (case s of Add name args \<Rightarrow> name = ''add_offline_message'' | _ \<Rightarrow> False)"

text \<open>The offline messages of a validated configuration: none when the key is absent.\<close>

definition offline_messages :: "pyvalue \<Rightarrow> pyvalue list" where
  "offline_messages cfg =
     (case cfg of
        PyDict kvs \<Rightarrow> (case map_of kvs CONF_OFFLINE_MESSAGES of Some (PyList msgs) \<Rightarrow> msgs | _ \<Rightarrow> [])
      | _ \<Rightarrow> [])"


section \<open>Facts about validation and code generation\<close>

lemma bind_res_Inr_iff: "bind_res r f = Inr y \<longleftrightarrow> (\<exists>x. r = Inr x \<and> f x = Inr y)"
  by (cases r) (simp_all add: bind_res_def)

lemma bind_res_simps [simp]: "bind_res (Inr x) f = f x" "bind_res (Inl e) f = Inl e"
  by (simp_all add: bind_res_def)

lemma map_res_simps [simp]: "map_res f (Inr x) = Inr (f x)" "map_res f (Inl e) = Inl e"
  by (simp_all add: map_res_def)

lemma map_res_Inr_iff: "map_res f r = Inr y \<longleftrightarrow> (\<exists>x. r = Inr x \<and> y = f x)"
  by (cases r) auto

lemma collect_Cons_Inr:
  "collect (r # rs) = Inr xs \<longleftrightarrow> (\<exists>x ys. r = Inr x \<and> collect rs = Inr ys \<and> xs = x @ ys)"
proof (cases r)
  case (Inl e)
  then show ?thesis by (cases e) (auto split: sum.splits error.splits)
next
  case (Inr x)
  then show ?thesis by (cases "collect rs") auto
qed

lemma collect_Invalid: "Inl (Invalid m) \<in> set rs \<Longrightarrow> \<exists>m'. collect rs = Inl (Invalid m')"
proof (induction rs)
  case Nil
  then show ?case by simp
next
  case (Cons r rs)
  show ?case
  proof (cases "r = Inl (Invalid m)")
    case True
    then show ?thesis by simp
  next
    case False
    with Cons obtain m' where "collect rs = Inl (Invalid m')" by auto
    then show ?thesis by (auto split: sum.splits error.splits)
  qed
qed

lemma validate_key_shape:
  "validate_key d (k, m, f) = Inr x \<Longrightarrow> x = [] \<or> (\<exists>r. x = [(k, r)])"
  by (auto simp: validate_key_def map_res_def split: option.splits marker.splits sum.splits)

lemma collect_keys:
  "collect (map (validate_key d) S) = Inr kvs \<Longrightarrow> fst ` set kvs \<subseteq> fst ` set S"
proof (induction S arbitrary: kvs)
  case Nil
  then show ?case by simp
next
  case (Cons e S)
  from Cons.prems obtain x xs where x: "validate_key d e = Inr x"
    and xs: "collect (map (validate_key d) S) = Inr xs" and kvs: "kvs = x @ xs"
    by (auto simp: collect_Cons_Inr simp del: collect.simps)
  obtain k m f where e: "e = (k, m, f)" by (cases e)
  from x e validate_key_shape [of d k m f x] have "fst ` set x \<subseteq> {k}" by auto
  with Cons.IH [OF xs] kvs e show ?case by auto
qed

lemma collect_fields:
  assumes "collect (map (validate_key d) S) = Inr kvs" and "distinct (map fst S)" and "(k, m, f) \<in> set S"
  shows "validate_key d (k, m, f) = Inr (case map_of kvs k of None \<Rightarrow> [] | Some r \<Rightarrow> [(k, r)])"
  using assms
proof (induction S arbitrary: kvs)
  case Nil
  then show ?case by simp
next
  case (Cons e S)
  from Cons.prems(1) obtain x xs where x: "validate_key d e = Inr x"
    and xs: "collect (map (validate_key d) S) = Inr xs" and kvs: "kvs = x @ xs"
    by (auto simp: collect_Cons_Inr simp del: collect.simps)
  obtain k' m' f' where e: "e = (k', m', f')" by (cases e)
  show ?case
  proof (cases "(k, m, f) = e")
    case True
    from Cons.prems(2) have "fst e \<notin> fst ` set S" by simp
    moreover from True have "fst e = k" by auto
    ultimately have "k \<notin> fst ` set S" by simp
    with collect_keys [OF xs] have "k \<notin> fst ` set xs" by blast
    then have "map_of xs k = None" by (simp add: map_of_eq_None_iff)
    with True x validate_key_shape [of d k m f x] kvs show ?thesis by auto
  next
    case False
    with Cons.prems(3) have mem: "(k, m, f) \<in> set S" by simp
    then have "k \<in> fst ` set S" by force
    with Cons.prems(2) e have "k \<noteq> k'" by auto
    with x e validate_key_shape [of d k' m' f' x] have "map_of (x @ xs) k = map_of xs k" by auto
    with Cons.IH [OF xs _ mem] Cons.prems(2) kvs show ?thesis by simp
  qed
qed

lemma schema_accepts:
  assumes "cv_Schema S v = Inr out" and "distinct (map fst S)"
  shows "\<exists>d kvs. v = PyDict d \<and> out = PyDict kvs \<and> (\<forall>e \<in> set S. field_ok d kvs e)"
proof -
  from assms(1) obtain d where v: "v = PyDict d"
    by (cases v) (auto simp: cv_Schema_def)
  with assms(1) obtain kvs where c: "collect (map (validate_key d) S) = Inr kvs" and out: "out = PyDict kvs"
    by (auto simp: cv_Schema_def map_res_def split: if_splits sum.splits)
  have "field_ok d kvs e" if "e \<in> set S" for e
  proof -
    obtain k m f where e: "e = (k, m, f)" by (cases e)
    from collect_fields [OF c assms(2)] that e
    have "validate_key d (k, m, f) = Inr (case map_of kvs k of None \<Rightarrow> [] | Some r \<Rightarrow> [(k, r)])" by simp
    then show ?thesis unfolding e field_ok_def validate_key_def
      by (auto simp: map_res_def split: option.splits marker.splits sum.splits)
  qed
  with v out show ?thesis by blast
qed

lemma schema_rejects:
  assumes "(k, m, f) \<in> set S" and "map_of d k = Some v" and "f v = Inl (Invalid x)"
  shows "\<exists>m'. cv_Schema S (PyDict d) = Inl (Invalid m')"
proof -
  have "validate_key d (k, m, f) = Inl (Invalid x)" using assms(2,3) by (simp add: validate_key_def)
  with assms(1) have "Inl (Invalid x) \<in> set (map (validate_key d) S)" by force
  from collect_Invalid [OF this] show ?thesis by (auto simp: cv_Schema_def)
qed

lemma schema_rejects_default:
  assumes "(k, Optional (Some dv), f) \<in> set S" and "map_of d k = None" and "f dv = Inl (Invalid x)"
  shows "\<exists>m'. cv_Schema S (PyDict d) = Inl (Invalid m')"
proof -
  have "validate_key d (k, Optional (Some dv), f) = Inl (Invalid x)" using assms(2,3) by (simp add: validate_key_def)
  with assms(1) have "Inl (Invalid x) \<in> set (map (validate_key d) S)" by force
  from collect_Invalid [OF this] show ?thesis by (auto simp: cv_Schema_def)
qed

lemma field_present:
  "field_ok d kvs (k, m, f) \<Longrightarrow> m \<noteq> Optional None \<Longrightarrow> \<exists>x r. f x = Inr r \<and> map_of kvs k = Some r"
  by (auto simp: field_ok_def split: option.splits marker.splits)

lemma field_optional:
  "field_ok d kvs (k, Optional None, f) \<Longrightarrow>
     map_of kvs k = None \<or> (\<exists>x r. f x = Inr r \<and> map_of kvs k = Some r)"
  by (auto simp: field_ok_def split: option.splits)

lemma replace_blank: "replace_char CHR '' '' '' '' s = s"
  by (induction s) (simp_all add: replace_char_def)

lemma cv_one_of_Inr:
  "cv_one_of L True v = Inr r \<Longrightarrow> \<exists>s. r = PyStr s \<and> s \<in> set L"
  by (cases v) (auto simp: cv_one_of_def cv_string_def check_not_templatable_def split: if_splits)

lemma cv_string_Inr: "cv_string v = Inr r \<Longrightarrow> \<exists>s. r = PyStr s"
  by (cases v) (auto simp: cv_string_def check_not_templatable_def)

lemma cv_int_range_Inr:
  "cv_int_range lo hi v = Inr r \<Longrightarrow> \<exists>n. int_of r = Some n \<and> lo \<le> n \<and> n \<le> hi \<and> cv_int v = Inr r"
  by (auto simp: cv_int_range_def Range_def bind_res_Inr_iff split: option.splits if_splits)

lemma int_of_safe_exp: "int_of r = Some n \<Longrightarrow> \<exists>e. safe_exp r = Inr e"
  by (cases r) auto

lemma cv_boolean_Inr: "cv_boolean v = Inr r \<Longrightarrow> \<exists>b. r = PyBool b"
  by (cases v) (auto simp: cv_boolean_def check_not_templatable_def split: if_splits)

lemma ms_Inr: "cv_positive_time_period_milliseconds v = Inr r \<Longrightarrow> \<exists>tp. r = TimePeriodMilliseconds tp"
  by (cases "time_period v")
     (auto simp: cv_positive_time_period_milliseconds_def time_period_in_milliseconds_def
      split: time_period.splits if_splits)

lemma validate_address_Inr: "validate_address v = Inr r \<Longrightarrow> \<exists>s. v = PyStr s \<and> r = PyStr s \<and> length s = 2"
  by (cases v) (auto simp: validate_address_def cv_string_strict_def check_not_templatable_def split: if_splits)

lemma cv_declare_id_Inr: "cv_declare_id v = Inr r \<Longrightarrow> r = ID None"
  by (cases v) (auto simp: cv_declare_id_def check_not_templatable_def)

lemma distinct_keys:
  "distinct (map fst OFFLINE_MESSAGE_SCHEMA_keys)"
  "distinct (map fst DEFAULTS_SCHEMA_keys)"
  "distinct (map fst CLOCK_SCHEMA_keys)"
  "distinct (map fst PRIORITY_SCHEMA_keys)"
  "distinct (map fst CONFIG_SCHEMA_keys)"
  "distinct (map fst PRIORITY_MESSAGE_ACTION_SCHEMA_keys)"
  by (simp_all add: OFFLINE_MESSAGE_SCHEMA_keys_def DEFAULTS_SCHEMA_keys_def CLOCK_SCHEMA_keys_def
      PRIORITY_SCHEMA_keys_def CONFIG_SCHEMA_keys_def PRIORITY_MESSAGE_ACTION_SCHEMA_keys_def
      schema_extend_def COMPONENT_SCHEMA_def UART_DEVICE_SCHEMA_def conf_defs)

lemma CONFIG_SCHEMA_keys_eq:
  "CONFIG_SCHEMA_keys =
       [(CONF_ID, GenerateID, cv_declare_id),
        (CONF_SIGN_TYPE, Optional (Some (PyStr ''all'')), cv_one_of (map fst SIGN_TYPES) True),
        (CONF_ADDRESS, Optional (Some (PyStr ''00'')), validate_address),
        (CONF_MAX_FILES, Optional (Some (PyInt 5)), cv_int_range 1 26),
        (CONF_DEFAULTS, Optional None, DEFAULTS_SCHEMA),
        (CONF_OFFLINE_MESSAGES, Optional None, cv_ensure_list OFFLINE_MESSAGE_SCHEMA),
        (CONF_CLOCK, Optional None, CLOCK_SCHEMA),
        (CONF_PRIORITY, Optional None, PRIORITY_SCHEMA)] @ COMPONENT_SCHEMA @ UART_DEVICE_SCHEMA"
  by (simp add: CONFIG_SCHEMA_keys_def schema_extend_def COMPONENT_SCHEMA_def UART_DEVICE_SCHEMA_def conf_defs)

lemma in_keys:
  "(CONF_TEXT, Required, cv_string) \<in> set OFFLINE_MESSAGE_SCHEMA_keys"
  "(CONF_COLOR, Optional (Some (PyStr ''green'')), cv_one_of COLORS True) \<in> set OFFLINE_MESSAGE_SCHEMA_keys"
  "(CONF_MODE, Optional (Some (PyStr ''rotate'')), cv_one_of MODES True) \<in> set OFFLINE_MESSAGE_SCHEMA_keys"
  "(CONF_DURATION, Optional (Some (PyStr ''10s'')), cv_positive_time_period_milliseconds) \<in> set OFFLINE_MESSAGE_SCHEMA_keys"
  "(CONF_EFFECT, Optional None, cv_one_of EFFECTS True) \<in> set OFFLINE_MESSAGE_SCHEMA_keys"
  "(CONF_CHARSET, Optional (Some (PyStr ''7high'')), cv_one_of CHARSETS True) \<in> set OFFLINE_MESSAGE_SCHEMA_keys"
  "(CONF_POSITION, Optional (Some (PyStr ''topline'')), cv_one_of POSITIONS True) \<in> set OFFLINE_MESSAGE_SCHEMA_keys"
  "(CONF_SPEED, Optional (Some (PyInt 3)), cv_int_range 1 5) \<in> set OFFLINE_MESSAGE_SCHEMA_keys"
  by (simp_all add: OFFLINE_MESSAGE_SCHEMA_keys_def)

lemma effects_nonempty: "s \<in> set EFFECTS \<Longrightarrow> s \<noteq> []"
  by (auto simp: EFFECTS_def)

lemma offline_message_code:
  assumes "OFFLINE_MESSAGE_SCHEMA x = Inr m"
  shows "\<exists>args. message_arguments m = map Inr args \<and>
                add_offline_message m = Inr (Add ''add_offline_message'' args)"
proof -
  from schema_accepts [OF assms [unfolded OFFLINE_MESSAGE_SCHEMA_def] distinct_keys(1)]
  obtain d kvs where m: "m = PyDict kvs" and ok: "\<forall>e \<in> set OFFLINE_MESSAGE_SCHEMA_keys. field_ok d kvs e"
    by blast
  from ok in_keys(1) have "\<exists>x r. cv_string x = Inr r \<and> map_of kvs CONF_TEXT = Some r"
    by (intro field_present) auto
  then obtain t where t: "map_of kvs CONF_TEXT = Some (PyStr t)" by (auto dest: cv_string_Inr)
  from ok in_keys(2) have "\<exists>x r. cv_one_of COLORS True x = Inr r \<and> map_of kvs CONF_COLOR = Some r"
    by (intro field_present) auto
  then obtain c where c: "map_of kvs CONF_COLOR = Some (PyStr c)" by (auto dest: cv_one_of_Inr)
  from ok in_keys(3) have "\<exists>x r. cv_one_of MODES True x = Inr r \<and> map_of kvs CONF_MODE = Some r"
    by (intro field_present) auto
  then obtain mo where mo: "map_of kvs CONF_MODE = Some (PyStr mo)" by (auto dest: cv_one_of_Inr)
  from ok in_keys(4) have "\<exists>x r. cv_positive_time_period_milliseconds x = Inr r \<and> map_of kvs CONF_DURATION = Some r"
    by (intro field_present) auto
  then obtain tp where tp: "map_of kvs CONF_DURATION = Some (TimePeriodMilliseconds tp)" by (auto dest: ms_Inr)
  from ok in_keys(5) have "map_of kvs CONF_EFFECT = None \<or> (\<exists>x r. cv_one_of EFFECTS True x = Inr r \<and> map_of kvs CONF_EFFECT = Some r)"
    by (intro field_optional) auto
  then have e: "map_of kvs CONF_EFFECT = None \<or> (\<exists>s. s \<noteq> [] \<and> map_of kvs CONF_EFFECT = Some (PyStr s))"
    by (auto dest!: cv_one_of_Inr effects_nonempty)
  from ok in_keys(6) have "\<exists>x r. cv_one_of CHARSETS True x = Inr r \<and> map_of kvs CONF_CHARSET = Some r"
    by (intro field_present) auto
  then obtain ch where ch: "map_of kvs CONF_CHARSET = Some (PyStr ch)" by (auto dest: cv_one_of_Inr)
  from ok in_keys(7) have "\<exists>x r. cv_one_of POSITIONS True x = Inr r \<and> map_of kvs CONF_POSITION = Some r"
    by (intro field_present) auto
  then obtain p where p: "map_of kvs CONF_POSITION = Some (PyStr p)" by (auto dest: cv_one_of_Inr)
  from ok in_keys(8) have "\<exists>x r. cv_int_range 1 5 x = Inr r \<and> map_of kvs CONF_SPEED = Some r"
    by (intro field_present) auto
  then obtain sp n where sp: "map_of kvs CONF_SPEED = Some sp" and "int_of sp = Some n"
    by (auto dest: cv_int_range_Inr)
  then obtain spe where spe: "safe_exp sp = Inr spe" by (auto dest: int_of_safe_exp)
  from e show ?thesis
  proof
    assume "map_of kvs CONF_EFFECT = None"
    with m t c mo tp ch p sp spe show ?thesis
      by (simp add: message_arguments_def add_offline_message_def getitem_def get_default_def contains_def)
  next
    assume "\<exists>s. s \<noteq> [] \<and> map_of kvs CONF_EFFECT = Some (PyStr s)"
    then obtain s where "s \<noteq> []" "map_of kvs CONF_EFFECT = Some (PyStr s)" by blast
    with m t c mo tp ch p sp spe show ?thesis
      by (simp add: message_arguments_def add_offline_message_def getitem_def get_default_def contains_def)
  qed
qed

lemma collect_singletons:
  "collect (map (\<lambda>x. map_res (\<lambda>r. [r]) (f x)) xs) = Inr rs \<longleftrightarrow> map f xs = map Inr rs"
proof (induction xs arbitrary: rs)
  case Nil
  then show ?case by auto
next
  case (Cons x xs)
  show ?case
  proof (cases "f x")
    case (Inl e)
    then show ?thesis by (cases e) (auto split: sum.splits error.splits)
  next
    case (Inr r)
    show ?thesis
    proof (cases "collect (map (\<lambda>x. map_res (\<lambda>r. [r]) (f x)) xs)")
      case (Inl e)
      with Cons.IH Inr show ?thesis by (auto simp: map_eq_Cons_conv)
    next
      case r2: (Inr zs)
      with Cons.IH [of zs] Inr show ?thesis by (auto simp: map_eq_Cons_conv)
    qed
  qed
qed

lemma ensure_list_list:
  "cv_ensure_list f (PyList xs) = Inr r \<longleftrightarrow> (\<exists>rs. r = PyList rs \<and> map f xs = map Inr rs)"
  by (auto simp: cv_ensure_list_def check_not_templatable_def map_res_Inr_iff collect_singletons
      simp del: collect.simps)

lemma ensure_list_Inr:
  assumes "cv_ensure_list f v = Inr r"
  shows "\<exists>rs. r = PyList rs \<and> (\<forall>m \<in> set rs. \<exists>x. f x = Inr m)"
proof (cases v)
  case (PyList xs)
  with assms obtain rs where r: "r = PyList rs" and eq: "map f xs = map Inr rs"
    by (auto simp: ensure_list_list)
  have "\<exists>x. f x = Inr m" if "m \<in> set rs" for m
  proof -
    from that obtain i where "i < length rs" "rs ! i = m" by (auto simp: in_set_conv_nth)
    moreover from eq have "length xs = length rs" by (rule map_eq_imp_length_eq)
    ultimately have "f (xs ! i) = Inr m" using eq by (metis nth_map)
    then show ?thesis ..
  qed
  with r show ?thesis by blast
next
  case (PyDict d)
  with assms show ?thesis
    by (cases d; cases "f v") (auto simp: cv_ensure_list_def check_not_templatable_def)
qed (use assms in \<open>auto simp: cv_ensure_list_def check_not_templatable_def map_res_def split: sum.splits\<close>)

lemma offline_loop_code:
  assumes "\<forall>m \<in> set msgs. \<exists>x. OFFLINE_MESSAGE_SCHEMA x = Inr m"
  shows "\<exists>stmts. offline_loop msgs = Inr stmts \<and>
           list_all2 (\<lambda>m s. \<exists>args. message_arguments m = map Inr args \<and> s = Add ''add_offline_message'' args) msgs stmts"
  using assms
proof (induction msgs)
  case Nil
  then show ?case by simp
next
  case (Cons m msgs)
  then obtain x where "OFFLINE_MESSAGE_SCHEMA x = Inr m" by auto
  from offline_message_code [OF this] obtain args where
    "message_arguments m = map Inr args" "add_offline_message m = Inr (Add ''add_offline_message'' args)" by blast
  moreover from Cons obtain stmts where "offline_loop msgs = Inr stmts"
    "list_all2 (\<lambda>m s. \<exists>args. message_arguments m = map Inr args \<and> s = Add ''add_offline_message'' args) msgs stmts"
    by auto
  ultimately show ?case by simp
qed

lemma offline_code:
  assumes "map_of kvs CONF_OFFLINE_MESSAGES = None \<and> msgs = [] \<or>
           map_of kvs CONF_OFFLINE_MESSAGES = Some (PyList msgs) \<and>
           (\<forall>m \<in> set msgs. \<exists>x. OFFLINE_MESSAGE_SCHEMA x = Inr m)"
  shows "\<exists>stmts. to_code_offline_messages (PyDict kvs) = Inr stmts \<and>
           list_all2 (\<lambda>m s. \<exists>args. message_arguments m = map Inr args \<and> s = Add ''add_offline_message'' args) msgs stmts"
  using assms offline_loop_code [of msgs]
  by (auto simp: to_code_offline_messages_def contains_def getitem_def)

lemma defaults_code:
  assumes "map_of kvs CONF_DEFAULTS = None \<or> (\<exists>x r. DEFAULTS_SCHEMA x = Inr r \<and> map_of kvs CONF_DEFAULTS = Some r)"
  shows "\<exists>stmts. to_code_defaults (PyDict kvs) = Inr stmts \<and> (\<forall>s \<in> set stmts. \<not> is_offline_call s)"
  using assms
proof
  assume "map_of kvs CONF_DEFAULTS = None"
  then show ?thesis by (simp add: to_code_defaults_def contains_def)
next
  assume "\<exists>x r. DEFAULTS_SCHEMA x = Inr r \<and> map_of kvs CONF_DEFAULTS = Some r"
  then obtain x r where acc: "DEFAULTS_SCHEMA x = Inr r" and r: "map_of kvs CONF_DEFAULTS = Some r" by blast
  from schema_accepts [OF acc [unfolded DEFAULTS_SCHEMA_def] distinct_keys(2)]
  obtain d ds where ds: "r = PyDict ds" and ok: "\<forall>e \<in> set DEFAULTS_SCHEMA_keys. field_ok d ds e"
    by blast
  have "\<exists>x r. cv_one_of COLORS True x = Inr r \<and> map_of ds CONF_COLOR = Some r"
    by (rule field_present [where d = d and m = "Optional (Some (PyStr ''green''))"]) (use ok in \<open>simp_all add: DEFAULTS_SCHEMA_keys_def\<close>)
  then obtain c where c: "map_of ds CONF_COLOR = Some (PyStr c)" by (auto dest: cv_one_of_Inr)
  have "\<exists>x r. cv_one_of MODES True x = Inr r \<and> map_of ds CONF_MODE = Some r"
    by (rule field_present [where d = d and m = "Optional (Some (PyStr ''rotate''))"]) (use ok in \<open>simp_all add: DEFAULTS_SCHEMA_keys_def\<close>)
  then obtain mo where mo: "map_of ds CONF_MODE = Some (PyStr mo)" by (auto dest: cv_one_of_Inr)
  have "\<exists>x r. cv_one_of CHARSETS True x = Inr r \<and> map_of ds CONF_CHARSET = Some r"
    by (rule field_present [where d = d and m = "Optional (Some (PyStr ''7high''))"]) (use ok in \<open>simp_all add: DEFAULTS_SCHEMA_keys_def\<close>)
  then obtain ch where ch: "map_of ds CONF_CHARSET = Some (PyStr ch)" by (auto dest: cv_one_of_Inr)
  have "\<exists>x r. cv_one_of POSITIONS True x = Inr r \<and> map_of ds CONF_POSITION = Some r"
    by (rule field_present [where d = d and m = "Optional (Some (PyStr ''topline''))"]) (use ok in \<open>simp_all add: DEFAULTS_SCHEMA_keys_def\<close>)
  then obtain p where p: "map_of ds CONF_POSITION = Some (PyStr p)" by (auto dest: cv_one_of_Inr)
  have "\<exists>x r. cv_int_range 1 5 x = Inr r \<and> map_of ds CONF_SPEED = Some r"
    by (rule field_present [where d = d and m = "Optional (Some (PyInt 3))"]) (use ok in \<open>simp_all add: DEFAULTS_SCHEMA_keys_def\<close>)
  then obtain sp n where sp: "map_of ds CONF_SPEED = Some sp" and "int_of sp = Some n"
    by (auto dest: cv_int_range_Inr)
  then obtain spe where spe: "safe_exp sp = Inr spe" by (auto dest: int_of_safe_exp)
  have "\<exists>x r. cv_one_of EFFECTS True x = Inr r \<and> map_of ds CONF_EFFECT = Some r"
    by (rule field_present [where d = d and m = "Optional (Some (PyStr ''twinkle''))"]) (use ok in \<open>simp_all add: DEFAULTS_SCHEMA_keys_def\<close>)
  then obtain e where e: "map_of ds CONF_EFFECT = Some (PyStr e)" by (auto dest: cv_one_of_Inr)
  from r ds c mo ch p sp spe e show ?thesis
    by (simp add: to_code_defaults_def contains_def getitem_def from_string_def is_offline_call_def)
qed

lemma clock_code:
  assumes "map_of kvs CONF_CLOCK = None \<or> (\<exists>x r. CLOCK_SCHEMA x = Inr r \<and> map_of kvs CONF_CLOCK = Some r)"
  shows "\<exists>stmts. to_code_clock (PyDict kvs) = Inr stmts \<and> (\<forall>s \<in> set stmts. \<not> is_offline_call s)"
  using assms
proof
  assume "map_of kvs CONF_CLOCK = None"
  then show ?thesis by (simp add: to_code_clock_def contains_def)
next
  assume "\<exists>x r. CLOCK_SCHEMA x = Inr r \<and> map_of kvs CONF_CLOCK = Some r"
  then obtain x r where acc: "CLOCK_SCHEMA x = Inr r" and r: "map_of kvs CONF_CLOCK = Some r" by blast
  from schema_accepts [OF acc [unfolded CLOCK_SCHEMA_def] distinct_keys(3)]
  obtain d ds where ds: "r = PyDict ds" and ok: "\<forall>e \<in> set CLOCK_SCHEMA_keys. field_ok d ds e"
    by blast
  have "\<exists>x r. cv_boolean x = Inr r \<and> map_of ds CONF_ENABLED = Some r"
    by (rule field_present [where d = d and m = "Optional (Some (PyBool True))"]) (use ok in \<open>simp_all add: CLOCK_SCHEMA_keys_def\<close>)
  then obtain b where b: "map_of ds CONF_ENABLED = Some (PyBool b)" by (auto dest: cv_boolean_Inr)
  have "\<exists>x r. cv_positive_time_period_milliseconds x = Inr r \<and> map_of ds CONF_INTERVAL = Some r"
    by (rule field_present [where d = d and m = "Optional (Some (PyStr ''60s''))"]) (use ok in \<open>simp_all add: CLOCK_SCHEMA_keys_def\<close>)
  then obtain i where i: "map_of ds CONF_INTERVAL = Some (TimePeriodMilliseconds i)" by (auto dest: ms_Inr)
  have "\<exists>x r. cv_positive_time_period_milliseconds x = Inr r \<and> map_of ds CONF_DURATION = Some r"
    by (rule field_present [where d = d and m = "Optional (Some (PyStr ''4s''))"]) (use ok in \<open>simp_all add: CLOCK_SCHEMA_keys_def\<close>)
  then obtain du where du: "map_of ds CONF_DURATION = Some (TimePeriodMilliseconds du)" by (auto dest: ms_Inr)
  have "\<exists>x r. cv_one_of CLOCK_FORMATS True x = Inr r \<and> map_of ds CONF_FORMAT = Some r"
    by (rule field_present [where d = d and m = "Optional (Some (PyStr ''12h''))"]) (use ok in \<open>simp_all add: CLOCK_SCHEMA_keys_def\<close>)
  then obtain f where f: "map_of ds CONF_FORMAT = Some (PyStr f)" by (auto dest: cv_one_of_Inr)
  have "\<exists>x r. cv_one_of COLORS True x = Inr r \<and> map_of ds CONF_COLOR = Some r"
    by (rule field_present [where d = d and m = "Optional (Some (PyStr ''amber''))"]) (use ok in \<open>simp_all add: CLOCK_SCHEMA_keys_def\<close>)
  then obtain c where c: "map_of ds CONF_COLOR = Some (PyStr c)" by (auto dest: cv_one_of_Inr)
  from r ds b i du f c show ?thesis
    by (simp add: to_code_clock_def contains_def getitem_def from_string_def is_offline_call_def)
qed

lemma priority_fields:
  assumes "PRIORITY_SCHEMA x = Inr r"
  shows "\<exists>ds w dd. r = PyDict ds \<and> map_of ds CONF_WARNING_DURATION = Some (TimePeriodMilliseconds w) \<and>
           map_of ds CONF_DEFAULT_DURATION = Some (TimePeriodMilliseconds dd)"
proof -
  from schema_accepts [OF assms [unfolded PRIORITY_SCHEMA_def] distinct_keys(4)]
  obtain d ds where ds: "r = PyDict ds" and ok: "\<forall>e \<in> set PRIORITY_SCHEMA_keys. field_ok d ds e"
    by blast
  have "\<exists>x r. cv_positive_time_period_milliseconds x = Inr r \<and> map_of ds CONF_WARNING_DURATION = Some r"
    by (rule field_present [where d = d and m = "Optional (Some (PyStr ''2500ms''))"]) (use ok in \<open>simp_all add: PRIORITY_SCHEMA_keys_def\<close>)
  then obtain w where w: "map_of ds CONF_WARNING_DURATION = Some (TimePeriodMilliseconds w)" by (auto dest: ms_Inr)
  have "\<exists>x r. cv_positive_time_period_milliseconds x = Inr r \<and> map_of ds CONF_DEFAULT_DURATION = Some r"
    by (rule field_present [where d = d and m = "Optional (Some (PyStr ''25s''))"]) (use ok in \<open>simp_all add: PRIORITY_SCHEMA_keys_def\<close>)
  then obtain dd where dd: "map_of ds CONF_DEFAULT_DURATION = Some (TimePeriodMilliseconds dd)" by (auto dest: ms_Inr)
  from ds w dd show ?thesis by blast
qed

lemma priority_code:
  assumes "map_of kvs CONF_PRIORITY = None \<or> (\<exists>x r. PRIORITY_SCHEMA x = Inr r \<and> map_of kvs CONF_PRIORITY = Some r)"
  shows "\<exists>stmts. to_code_priority (PyDict kvs) = Inr stmts \<and> (\<forall>s \<in> set stmts. \<not> is_offline_call s)"
  using assms
proof
  assume "map_of kvs CONF_PRIORITY = None"
  then show ?thesis by (simp add: to_code_priority_def contains_def)
next
  assume "\<exists>x r. PRIORITY_SCHEMA x = Inr r \<and> map_of kvs CONF_PRIORITY = Some r"
  then obtain x r where acc: "PRIORITY_SCHEMA x = Inr r" and r: "map_of kvs CONF_PRIORITY = Some r" by blast
  from priority_fields [OF acc] r show ?thesis
    by (auto simp: to_code_priority_def contains_def getitem_def is_offline_call_def)
qed

lemma config_keys_mem:
  "(CONF_ID, GenerateID, cv_declare_id) \<in> set CONFIG_SCHEMA_keys"
  "(CONF_SIGN_TYPE, Optional (Some (PyStr ''all'')), cv_one_of (map fst SIGN_TYPES) True) \<in> set CONFIG_SCHEMA_keys"
  "(CONF_ADDRESS, Optional (Some (PyStr ''00'')), validate_address) \<in> set CONFIG_SCHEMA_keys"
  "(CONF_MAX_FILES, Optional (Some (PyInt 5)), cv_int_range 1 26) \<in> set CONFIG_SCHEMA_keys"
  "(CONF_DEFAULTS, Optional None, DEFAULTS_SCHEMA) \<in> set CONFIG_SCHEMA_keys"
  "(CONF_OFFLINE_MESSAGES, Optional None, cv_ensure_list OFFLINE_MESSAGE_SCHEMA) \<in> set CONFIG_SCHEMA_keys"
  "(CONF_CLOCK, Optional None, CLOCK_SCHEMA) \<in> set CONFIG_SCHEMA_keys"
  "(CONF_PRIORITY, Optional None, PRIORITY_SCHEMA) \<in> set CONFIG_SCHEMA_keys"
  by (simp_all add: CONFIG_SCHEMA_keys_eq)

lemma to_code_validated:
  assumes ok: "\<forall>e \<in> set CONFIG_SCHEMA_keys. field_ok d kvs e"
  shows "\<exists>t a mf mfe dcode ccode pcode msgs ocode.
           map_of kvs CONF_ADDRESS = Some (PyStr a) \<and>
           map_of kvs CONF_MAX_FILES = Some mf \<and> safe_exp mf = Inr mfe \<and>
           (map_of kvs CONF_OFFLINE_MESSAGES = None \<and> msgs = [] \<or>
            map_of kvs CONF_OFFLINE_MESSAGES = Some (PyList msgs)) \<and>
           to_code (PyDict kvs) =
             Inr ([New_Pvariable (ID None), Register_component, Register_uart_device,
                   Add ''set_sign_type'' [NamespaceMember t],
                   Add ''set_address'' [StringLiteral a],
                   Add ''set_max_files'' [mfe]] @ dcode @ ccode @ pcode @ ocode) \<and>
           to_code_priority (PyDict kvs) = Inr pcode \<and>
           (\<forall>s \<in> set (dcode @ ccode @ pcode). \<not> is_offline_call s) \<and>
           list_all2 (\<lambda>m s. \<exists>args. message_arguments m = map Inr args \<and> s = Add ''add_offline_message'' args) msgs ocode"
proof -
  have "\<exists>x r. cv_declare_id x = Inr r \<and> map_of kvs CONF_ID = Some r"
    by (rule field_present [OF ok [rule_format, OF config_keys_mem(1)]]) (simp add: GenerateID_def)
  then have id: "map_of kvs CONF_ID = Some (ID None)" by (auto dest: cv_declare_id_Inr)
  have "\<exists>x r. cv_one_of (map fst SIGN_TYPES) True x = Inr r \<and> map_of kvs CONF_SIGN_TYPE = Some r"
    by (rule field_present [OF ok [rule_format, OF config_keys_mem(2)]]) (simp add: GenerateID_def)
  then obtain s where s: "map_of kvs CONF_SIGN_TYPE = Some (PyStr s)" and "s \<in> set (map fst SIGN_TYPES)"
    by (auto dest!: cv_one_of_Inr)
  then obtain t where t: "map_of SIGN_TYPES s = Some t"
    by (cases "map_of SIGN_TYPES s") (auto simp: map_of_eq_None_iff)
  have "\<exists>x r. validate_address x = Inr r \<and> map_of kvs CONF_ADDRESS = Some r"
    by (rule field_present [OF ok [rule_format, OF config_keys_mem(3)]]) (simp add: GenerateID_def)
  then obtain a where a: "map_of kvs CONF_ADDRESS = Some (PyStr a)" by (auto dest: validate_address_Inr)
  have "\<exists>x r. cv_int_range 1 26 x = Inr r \<and> map_of kvs CONF_MAX_FILES = Some r"
    by (rule field_present [OF ok [rule_format, OF config_keys_mem(4)]]) (simp add: GenerateID_def)
  then obtain mf n where mf: "map_of kvs CONF_MAX_FILES = Some mf" and "int_of mf = Some n"
    by (auto dest: cv_int_range_Inr)
  then obtain mfe where mfe: "safe_exp mf = Inr mfe" by (auto dest: int_of_safe_exp)
  have "map_of kvs CONF_DEFAULTS = None \<or> (\<exists>x r. DEFAULTS_SCHEMA x = Inr r \<and> map_of kvs CONF_DEFAULTS = Some r)"
    by (rule field_optional [OF ok [rule_format, OF config_keys_mem(5)]])
  from defaults_code [OF this] obtain dcode where
    dcode: "to_code_defaults (PyDict kvs) = Inr dcode" "\<forall>s \<in> set dcode. \<not> is_offline_call s" by blast
  have "map_of kvs CONF_CLOCK = None \<or> (\<exists>x r. CLOCK_SCHEMA x = Inr r \<and> map_of kvs CONF_CLOCK = Some r)"
    by (rule field_optional [OF ok [rule_format, OF config_keys_mem(7)]])
  from clock_code [OF this] obtain ccode where
    ccode: "to_code_clock (PyDict kvs) = Inr ccode" "\<forall>s \<in> set ccode. \<not> is_offline_call s" by blast
  have "map_of kvs CONF_PRIORITY = None \<or> (\<exists>x r. PRIORITY_SCHEMA x = Inr r \<and> map_of kvs CONF_PRIORITY = Some r)"
    by (rule field_optional [OF ok [rule_format, OF config_keys_mem(8)]])
  from priority_code [OF this] obtain pcode where
    pcode: "to_code_priority (PyDict kvs) = Inr pcode" "\<forall>s \<in> set pcode. \<not> is_offline_call s" by blast
  have "map_of kvs CONF_OFFLINE_MESSAGES = None \<or>
        (\<exists>x r. cv_ensure_list OFFLINE_MESSAGE_SCHEMA x = Inr r \<and> map_of kvs CONF_OFFLINE_MESSAGES = Some r)"
    by (rule field_optional [OF ok [rule_format, OF config_keys_mem(6)]])
  then have "\<exists>msgs.
     map_of kvs CONF_OFFLINE_MESSAGES = None \<and> msgs = [] \<or>
     map_of kvs CONF_OFFLINE_MESSAGES = Some (PyList msgs) \<and> (\<forall>m \<in> set msgs. \<exists>x. OFFLINE_MESSAGE_SCHEMA x = Inr m)"
  proof
    assume "map_of kvs CONF_OFFLINE_MESSAGES = None"
    then show ?thesis by simp
  next
    assume "\<exists>x r. cv_ensure_list OFFLINE_MESSAGE_SCHEMA x = Inr r \<and> map_of kvs CONF_OFFLINE_MESSAGES = Some r"
    then obtain x r where "cv_ensure_list OFFLINE_MESSAGE_SCHEMA x = Inr r" and r: "map_of kvs CONF_OFFLINE_MESSAGES = Some r"
      by blast
    from ensure_list_Inr [OF this(1)] r show ?thesis by blast
  qed
  then obtain msgs where msgs:
    "map_of kvs CONF_OFFLINE_MESSAGES = None \<and> msgs = [] \<or>
     map_of kvs CONF_OFFLINE_MESSAGES = Some (PyList msgs) \<and> (\<forall>m \<in> set msgs. \<exists>x. OFFLINE_MESSAGE_SCHEMA x = Inr m)"
    by blast
  from offline_code [OF this] obtain ocode where
    ocode: "to_code_offline_messages (PyDict kvs) = Inr ocode"
      "list_all2 (\<lambda>m s. \<exists>args. message_arguments m = map Inr args \<and> s = Add ''add_offline_message'' args) msgs ocode"
    by blast
  have "to_code (PyDict kvs) =
          Inr ([New_Pvariable (ID None), Register_component, Register_uart_device,
                Add ''set_sign_type'' [NamespaceMember t],
                Add ''set_address'' [StringLiteral a],
                Add ''set_max_files'' [mfe]] @ dcode @ ccode @ pcode @ ocode)"
    using id s t a mf mfe dcode(1) ccode(1) pcode(1) ocode(1)
    by (simp add: to_code_def getitem_def)
  moreover from msgs have "map_of kvs CONF_OFFLINE_MESSAGES = None \<and> msgs = [] \<or>
            map_of kvs CONF_OFFLINE_MESSAGES = Some (PyList msgs)" by blast
  moreover from dcode(2) ccode(2) pcode(2) have "\<forall>s \<in> set (dcode @ ccode @ pcode). \<not> is_offline_call s" by auto
  ultimately show ?thesis using a mf mfe pcode(1) ocode(2) by blast
qed

lemmas schema_defs =
  CONFIG_SCHEMA_def CONFIG_SCHEMA_keys_def OFFLINE_MESSAGE_SCHEMA_def OFFLINE_MESSAGE_SCHEMA_keys_def
  DEFAULTS_SCHEMA_def DEFAULTS_SCHEMA_keys_def CLOCK_SCHEMA_def CLOCK_SCHEMA_keys_def
  PRIORITY_SCHEMA_def PRIORITY_SCHEMA_keys_def COMPONENT_SCHEMA_def UART_DEVICE_SCHEMA_def
  PRIORITY_MESSAGE_ACTION_SCHEMA_def PRIORITY_MESSAGE_ACTION_SCHEMA_keys_def
  GenerateID_def schema_extend_def cv_Schema_def validate_key_def

lemmas validator_defs =
  cv_declare_id_def cv_use_id_def cv_one_of_def cv_string_def cv_string_strict_def cv_int_def
  cv_int_range_def Range_def cv_boolean_def cv_ensure_list_def cv_templatable_def
  cv_positive_time_period_milliseconds_def cv_positive_time_period_seconds_def time_period_def
  time_period_in_milliseconds_def time_period_in_seconds_def unit_to_kwarg_def
  check_not_templatable_def validate_address_def lower_def lower_char_def replace_char_def
  is_digit_def digit_val_def int_of_digits_def

lemmas list_defs = SIGN_TYPES_def COLORS_def MODES_def EFFECTS_def CHARSETS_def POSITIONS_def CLOCK_FORMATS_def

lemmas code_defs =
  build_def to_code_def to_code_defaults_def to_code_clock_def to_code_priority_def
  to_code_offline_messages_def add_offline_message_def getitem_def contains_def get_default_def
  from_string_def build_priority_action_def betabrite_priority_action_to_code_def cg_templatable_def

lemma config_accepted:
  assumes "CONFIG_SCHEMA (PyDict d) = Inr cfg"
  obtains kvs where "cfg = PyDict kvs" and "\<forall>e \<in> set CONFIG_SCHEMA_keys. field_ok d kvs e"
  using schema_accepts [OF assms [unfolded CONFIG_SCHEMA_def] distinct_keys(5)] by auto

lemma int_range_int:
  "cv_int_range lo hi (PyInt n) = Inr r \<longleftrightarrow> lo \<le> n \<and> n \<le> hi \<and> r = PyInt n"
  by (auto simp: cv_int_range_def cv_int_def check_not_templatable_def Range_def)

lemma int_range_int_rejected:
  "\<not> (lo \<le> n \<and> n \<le> hi) \<Longrightarrow> \<exists>m. cv_int_range lo hi (PyInt n) = Inl (Invalid m)"
  by (auto simp: cv_int_range_def cv_int_def check_not_templatable_def Range_def)

lemma int_range_iff:
  "cv_int_range lo hi v = Inr r \<longleftrightarrow> cv_int v = Inr r \<and> (\<exists>k. int_of r = Some k \<and> lo \<le> k \<and> k \<le> hi)"
  by (cases "cv_int v") (auto simp: cv_int_range_def Range_def split: option.splits)

lemma int_range_not_a_number:
  "v = PyNone \<or> (\<exists>xs. v = PyList xs) \<or> (\<exists>kvs. v = PyDict kvs) \<or> (\<exists>src. v = Lambda src) \<Longrightarrow>
     \<exists>m. cv_int_range lo hi v = Inl (Invalid m)"
  by (auto simp: cv_int_range_def cv_int_def check_not_templatable_def)

lemma int_range_bool:
  "cv_int_range lo hi (PyBool b) = Inr r \<longleftrightarrow>
     lo \<le> (if b then 1 else 0) \<and> (if b then 1 else 0) \<le> hi \<and> r = PyBool b"
  by (auto simp: cv_int_range_def cv_int_def check_not_templatable_def Range_def)

lemma int_range_digits:
  assumes "s \<noteq> []" and "length s \<le> 18" and "list_all is_digit s"
  shows "cv_int_range lo hi (PyStr s) = Inr r \<longleftrightarrow>
           lo \<le> int_of_digits s \<and> int_of_digits s \<le> hi \<and> r = PyInt (int_of_digits s)"
  using assms by (auto simp: cv_int_range_def cv_int_def check_not_templatable_def Range_def)

lemma schema_int_key:
  assumes acc: "cv_Schema S (PyDict d) = Inr cfg" and dist: "distinct (map fst S)"
    and mem: "(k, Optional (Some (PyInt dflt)), cv_int_range lo hi) \<in> set S" and dflt: "lo \<le> dflt" "dflt \<le> hi"
  shows "case map_of d k of
           Some v \<Rightarrow> \<exists>x n. cv_int_range lo hi v = Inr x \<and> int_of x = Some n \<and> lo \<le> n \<and> n \<le> hi \<and>
                            getitem cfg k = Inr x
         | None \<Rightarrow> getitem cfg k = Inr (PyInt dflt)"
proof -
  from schema_accepts [OF acc dist] obtain kvs where cfg: "cfg = PyDict kvs"
    and ok: "\<forall>e \<in> set S. field_ok d kvs e" by auto
  from ok mem have f: "field_ok d kvs (k, Optional (Some (PyInt dflt)), cv_int_range lo hi)" by blast
  show ?thesis
  proof (cases "map_of d k")
    case None
    with f dflt cfg show ?thesis by (auto simp: field_ok_def int_range_int getitem_def)
  next
    case (Some v)
    with f obtain x where x: "cv_int_range lo hi v = Inr x" "map_of kvs k = Some x"
      by (auto simp: field_ok_def)
    from x(1) obtain n where "int_of x = Some n" "lo \<le> n" "n \<le> hi" by (auto simp: int_range_iff)
    with x Some cfg show ?thesis by (auto simp: getitem_def)
  qed
qed

lemma schema_int_field_rejected:
  assumes mem: "(k, m, cv_int_range lo hi) \<in> set S" and v: "map_of d k = Some (PyInt n)" and out: "\<not> (lo \<le> n \<and> n \<le> hi)"
  shows "\<exists>m. cv_Schema S (PyDict d) = Inl (Invalid m)"
proof -
  from int_range_int_rejected [OF out] obtain x where "cv_int_range lo hi (PyInt n) = Inl (Invalid x)" by blast
  from schema_rejects [OF mem v this] show ?thesis .
qed

section \<open>The sign address\<close>

text \<open>
  C4, as the code has it. \<^verbatim>\<open>validate_address\<close> accepts a value if and only if it is a string
  of exactly 2 characters, and returns it unchanged. A string of another length is
  refused with the message ``Address must be exactly 2 characters''; a value that is no
  string is refused by \<^verbatim>\<open>cv.string_strict\<close>, with a validation error of its own. In a validated
  configuration the given address is the value of the key, and \<^verbatim>\<open>to_code\<close> passes it
  verbatim to \<^verbatim>\<open>set_address\<close>, in its fifth statement.
\<close>

theorem validate_address_two_characters:
  "(validate_address v = Inr r \<longleftrightarrow> (\<exists>s. v = PyStr s \<and> length s = 2 \<and> r = v)) \<and>
   (\<forall>s. v = PyStr s \<and> length s \<noteq> 2 \<longrightarrow>
        validate_address v = Inl (Invalid ''Address must be exactly 2 characters'')) \<and>
   ((\<forall>s. v \<noteq> PyStr s) \<longrightarrow> (\<exists>m. validate_address v = Inl (Invalid m))) \<and>
   (CONFIG_SCHEMA (PyDict d) = Inr cfg \<and> map_of d CONF_ADDRESS = Some v \<longrightarrow>
      (\<exists>s stmts. v = PyStr s \<and> length s = 2 \<and> getitem cfg CONF_ADDRESS = Inr v \<and>
         to_code cfg = Inr stmts \<and> stmts ! 4 = Add ''set_address'' [StringLiteral s]))"
proof (intro conjI)
  show "validate_address v = Inr r \<longleftrightarrow> (\<exists>s. v = PyStr s \<and> length s = 2 \<and> r = v)"
    by (cases v) (auto simp: validate_address_def cv_string_strict_def check_not_templatable_def)
  show "\<forall>s. v = PyStr s \<and> length s \<noteq> 2 \<longrightarrow>
        validate_address v = Inl (Invalid ''Address must be exactly 2 characters'')"
    by (auto simp: validate_address_def cv_string_strict_def check_not_templatable_def)
  show "(\<forall>s. v \<noteq> PyStr s) \<longrightarrow> (\<exists>m. validate_address v = Inl (Invalid m))"
    by (cases v) (auto simp: validate_address_def cv_string_strict_def check_not_templatable_def)
  show "CONFIG_SCHEMA (PyDict d) = Inr cfg \<and> map_of d CONF_ADDRESS = Some v \<longrightarrow>
      (\<exists>s stmts. v = PyStr s \<and> length s = 2 \<and> getitem cfg CONF_ADDRESS = Inr v \<and>
         to_code cfg = Inr stmts \<and> stmts ! 4 = Add ''set_address'' [StringLiteral s])"
  proof
    assume a: "CONFIG_SCHEMA (PyDict d) = Inr cfg \<and> map_of d CONF_ADDRESS = Some v"
    then obtain kvs where cfg: "cfg = PyDict kvs" and ok: "\<forall>e \<in> set CONFIG_SCHEMA_keys. field_ok d kvs e"
      by (auto elim: config_accepted)
    from ok config_keys_mem(3) a have "\<exists>r. validate_address v = Inr r \<and> map_of kvs CONF_ADDRESS = Some r"
      by (auto simp: field_ok_def)
    then obtain s where s: "v = PyStr s" "length s = 2" "map_of kvs CONF_ADDRESS = Some v"
      by (auto dest: validate_address_Inr)
    from to_code_validated [OF ok] s cfg show
      "\<exists>s stmts. v = PyStr s \<and> length s = 2 \<and> getitem cfg CONF_ADDRESS = Inr v \<and>
         to_code cfg = Inr stmts \<and> stmts ! 4 = Add ''set_address'' [StringLiteral s]"
      by (auto simp: getitem_def)
  qed
qed

lemma address_example:
  "CONFIG_SCHEMA (PyDict [(''address'', PyStr ''01'')]) =
     Inr (PyDict [(''id'', ID None), (''sign_type'', PyStr ''all''), (''address'', PyStr ''01''),
                  (''max_files'', PyInt 5), (''uart_id'', ID None)])"
  by (simp add: schema_defs validator_defs conf_defs list_defs)

text \<open>Witness for C4: the addresses \<^verbatim>\<open>"01"\<close>, \<^verbatim>\<open>"1"\<close> and the integer \<open>1\<close>.\<close>

theorem validate_address_two_characters_witness:
  "validate_address (PyStr ''01'') = Inr (PyStr ''01'') \<and>
   validate_address (PyStr ''1'') = Inl (Invalid ''Address must be exactly 2 characters'') \<and>
   (\<exists>m. validate_address (PyInt 1) = Inl (Invalid m)) \<and>
   (\<exists>stmts. to_code (PyDict [(''id'', ID None), (''sign_type'', PyStr ''all''), (''address'', PyStr ''01''),
                  (''max_files'', PyInt 5), (''uart_id'', ID None)]) = Inr stmts \<and>
            stmts ! 4 = Add ''set_address'' [StringLiteral ''01''])"
  using validate_address_two_characters [of "PyStr ''01''" "PyStr ''01''" "[(''address'', PyStr ''01'')]"
      "PyDict [(''id'', ID None), (''sign_type'', PyStr ''all''), (''address'', PyStr ''01''),
                  (''max_files'', PyInt 5), (''uart_id'', ID None)]"]
    validate_address_two_characters [of "PyStr ''1''" "PyStr ''1''" "[]" PyNone]
    validate_address_two_characters [of "PyInt 1" "PyStr ''1''" "[]" PyNone]
    address_example
  by (simp add: conf_defs)

text \<open>
  Counterexample for C4 as stated: the integer \<open>0\<close> (an address written without quotes) is
  refused, but not with the message ``Address must be exactly 2 characters''.
\<close>

theorem validate_address_message_counterexample:
  "validate_address (PyInt 0) = Inl (Invalid ''Must be string, did you forget putting quotes around the value?'') \<and>
   validate_address (PyInt 0) \<noteq> Inl (Invalid ''Address must be exactly 2 characters'')"
  by (simp add: validate_address_def cv_string_strict_def check_not_templatable_def)

section \<open>The number of files\<close>

text \<open>
  C5, as the code has it. The validator of \<^verbatim>\<open>max_files\<close> accepts an integer \<open>n\<close> if and only
  if \<open>1 \<le> n \<le> 26\<close>, and refuses any other integer with a validation error. It does not
  accept integers only: \<^verbatim>\<open>cv.int_\<close> converts a string of decimal digits to the integer it
  writes, which is then accepted if and only if it is in the range, and lets a boolean
  through as the integer Python takes it for, so that \<^verbatim>\<open>true\<close> is accepted and kept as it is
  and \<^verbatim>\<open>false\<close> is refused. None, a list, a dictionary and a lambda are refused. In a
  validated configuration the key holds the accepted value, and the integer 5 when the key
  was omitted; a configuration with an integer out of the range is refused as a whole.
\<close>

theorem max_files_accepted_values:
  "(cv_int_range 1 26 (PyInt n) = Inr r \<longleftrightarrow> 1 \<le> n \<and> n \<le> 26 \<and> r = PyInt n) \<and>
   (\<not> (1 \<le> n \<and> n \<le> 26) \<longrightarrow> (\<exists>m. cv_int_range 1 26 (PyInt n) = Inl (Invalid m))) \<and>
   (cv_int_range 1 26 (PyBool b) = Inr r \<longleftrightarrow> b \<and> r = PyBool True) \<and>
   (s \<noteq> [] \<and> length s \<le> 18 \<and> list_all is_digit s \<longrightarrow>
      (cv_int_range 1 26 (PyStr s) = Inr r \<longleftrightarrow>
         1 \<le> int_of_digits s \<and> int_of_digits s \<le> 26 \<and> r = PyInt (int_of_digits s))) \<and>
   (v = PyNone \<or> (\<exists>xs. v = PyList xs) \<or> (\<exists>kvs. v = PyDict kvs) \<or> (\<exists>src. v = Lambda src) \<longrightarrow>
      (\<exists>m. cv_int_range 1 26 v = Inl (Invalid m))) \<and>
   (CONFIG_SCHEMA (PyDict d) = Inr cfg \<longrightarrow>
      (case map_of d CONF_MAX_FILES of
         Some v \<Rightarrow> \<exists>x k. cv_int_range 1 26 v = Inr x \<and> int_of x = Some k \<and> 1 \<le> k \<and> k \<le> 26 \<and>
                          getitem cfg CONF_MAX_FILES = Inr x
       | None \<Rightarrow> getitem cfg CONF_MAX_FILES = Inr (PyInt 5))) \<and>
   (map_of d CONF_MAX_FILES = Some (PyInt n) \<and> \<not> (1 \<le> n \<and> n \<le> 26) \<longrightarrow>
      (\<exists>m. CONFIG_SCHEMA (PyDict d) = Inl (Invalid m)))"
proof (intro conjI impI)
  show "cv_int_range 1 26 (PyInt n) = Inr r \<longleftrightarrow> 1 \<le> n \<and> n \<le> 26 \<and> r = PyInt n"
    by (auto simp: int_range_int)
  show "\<exists>m. cv_int_range 1 26 (PyInt n) = Inl (Invalid m)" if "\<not> (1 \<le> n \<and> n \<le> 26)"
    using that by (rule int_range_int_rejected)
  show "cv_int_range 1 26 (PyBool b) = Inr r \<longleftrightarrow> b \<and> r = PyBool True"
    by (auto simp: int_range_bool)
  show "cv_int_range 1 26 (PyStr s) = Inr r \<longleftrightarrow>
         1 \<le> int_of_digits s \<and> int_of_digits s \<le> 26 \<and> r = PyInt (int_of_digits s)"
    if "s \<noteq> [] \<and> length s \<le> 18 \<and> list_all is_digit s"
    using that by (intro int_range_digits) auto
  show "\<exists>m. cv_int_range 1 26 v = Inl (Invalid m)"
    if "v = PyNone \<or> (\<exists>xs. v = PyList xs) \<or> (\<exists>kvs. v = PyDict kvs) \<or> (\<exists>src. v = Lambda src)"
    using that by (rule int_range_not_a_number)
  show "case map_of d CONF_MAX_FILES of
         Some v \<Rightarrow> \<exists>x k. cv_int_range 1 26 v = Inr x \<and> int_of x = Some k \<and> 1 \<le> k \<and> k \<le> 26 \<and>
                          getitem cfg CONF_MAX_FILES = Inr x
       | None \<Rightarrow> getitem cfg CONF_MAX_FILES = Inr (PyInt 5)"
    if "CONFIG_SCHEMA (PyDict d) = Inr cfg"
    by (rule schema_int_key [OF that [unfolded CONFIG_SCHEMA_def] distinct_keys(5) config_keys_mem(4)]) simp_all
  show "\<exists>m. CONFIG_SCHEMA (PyDict d) = Inl (Invalid m)"
    if "map_of d CONF_MAX_FILES = Some (PyInt n) \<and> \<not> (1 \<le> n \<and> n \<le> 26)"
    unfolding CONFIG_SCHEMA_def
    using schema_int_field_rejected [OF config_keys_mem(4), of d n] that by blast
qed

lemma max_files_examples:
  "CONFIG_SCHEMA (PyDict [(''max_files'', PyStr ''26'')]) =
     Inr (PyDict [(''id'', ID None), (''sign_type'', PyStr ''all''), (''address'', PyStr ''00''),
                  (''max_files'', PyInt 26), (''uart_id'', ID None)])"
  "CONFIG_SCHEMA (PyDict []) =
     Inr (PyDict [(''id'', ID None), (''sign_type'', PyStr ''all''), (''address'', PyStr ''00''),
                  (''max_files'', PyInt 5), (''uart_id'', ID None)])"
  by (simp_all add: schema_defs validator_defs conf_defs list_defs)

text \<open>
  Witness for C5: the integers 26, 27 and 0, the boolean true, the strings \<^verbatim>\<open>"26"\<close> and
  \<^verbatim>\<open>"27"\<close>, None, and the empty configuration.
\<close>

theorem max_files_accepted_values_witness:
  "cv_int_range 1 26 (PyInt 26) = Inr (PyInt 26) \<and>
   (\<exists>m. cv_int_range 1 26 (PyInt 27) = Inl (Invalid m)) \<and>
   cv_int_range 1 26 (PyBool True) = Inr (PyBool True) \<and>
   cv_int_range 1 26 (PyStr ''26'') = Inr (PyInt 26) \<and>
   (\<forall>r. cv_int_range 1 26 (PyStr ''27'') \<noteq> Inr r) \<and>
   (\<exists>m. cv_int_range 1 26 PyNone = Inl (Invalid m)) \<and>
   getitem (PyDict [(''id'', ID None), (''sign_type'', PyStr ''all''), (''address'', PyStr ''00''),
                  (''max_files'', PyInt 26), (''uart_id'', ID None)]) CONF_MAX_FILES = Inr (PyInt 26) \<and>
   getitem (PyDict [(''id'', ID None), (''sign_type'', PyStr ''all''), (''address'', PyStr ''00''),
                  (''max_files'', PyInt 5), (''uart_id'', ID None)]) CONF_MAX_FILES = Inr (PyInt 5) \<and>
   (\<exists>m. CONFIG_SCHEMA (PyDict [(''max_files'', PyInt 0)]) = Inl (Invalid m))"
  using max_files_accepted_values [of 26 "PyInt 26" True "''26''" "PyInt 26" "[(''max_files'', PyStr ''26'')]"
      "PyDict [(''id'', ID None), (''sign_type'', PyStr ''all''), (''address'', PyStr ''00''),
                  (''max_files'', PyInt 26), (''uart_id'', ID None)]"]
    max_files_accepted_values [of 27 "PyBool True" True "''27''" PyNone "[]"
      "PyDict [(''id'', ID None), (''sign_type'', PyStr ''all''), (''address'', PyStr ''00''),
                  (''max_files'', PyInt 5), (''uart_id'', ID None)]"]
    max_files_accepted_values [of 27 _ True "''27''" PyNone "[]" PyNone]
    max_files_accepted_values [of 0 "PyInt 0" True "''27''" PyNone "[(''max_files'', PyInt 0)]" PyNone]
    max_files_examples
  by (simp add: conf_defs is_digit_def int_of_digits_def digit_val_def getitem_def)

text \<open>
  Counterexample for C5 as stated: the string \<^verbatim>\<open>"5"\<close> and the boolean true are no integers
  and are accepted; code is generated for both.
\<close>

theorem max_files_not_only_integers_counterexample:
  "cv_int_range 1 26 (PyStr ''5'') = Inr (PyInt 5) \<and>
   cv_int_range 1 26 (PyBool True) = Inr (PyBool True) \<and>
   build (PyDict [(''max_files'', PyStr ''5'')]) =
     Inr [New_Pvariable (ID None), Register_component, Register_uart_device,
          Add ''set_sign_type'' [NamespaceMember ''ST_ALL''],
          Add ''set_address'' [StringLiteral ''00''],
          Add ''set_max_files'' [IntLiteral 5]] \<and>
   build (PyDict [(''max_files'', PyBool True)]) =
     Inr [New_Pvariable (ID None), Register_component, Register_uart_device,
          Add ''set_sign_type'' [NamespaceMember ''ST_ALL''],
          Add ''set_address'' [StringLiteral ''00''],
          Add ''set_max_files'' [BoolLiteral True]]"
  by (simp add: code_defs schema_defs validator_defs conf_defs list_defs)

section \<open>The speed\<close>

lemma speed_keys_mem:
  "(CONF_SPEED, Optional (Some (PyInt 3)), cv_int_range 1 5) \<in> set OFFLINE_MESSAGE_SCHEMA_keys"
  "(CONF_SPEED, Optional (Some (PyInt 3)), cv_int_range 1 5) \<in> set DEFAULTS_SCHEMA_keys"
  by (simp_all add: OFFLINE_MESSAGE_SCHEMA_keys_def DEFAULTS_SCHEMA_keys_def)

text \<open>
  C6, as the code has it. The validator of \<^verbatim>\<open>speed\<close>, in an offline message and in the
  defaults block, accepts an integer \<open>n\<close> if and only if \<open>1 \<le> n \<le> 5\<close> and refuses any other
  integer with a validation error. It does not accept integers only: \<^verbatim>\<open>cv.int_\<close> converts a
  string of decimal digits to the integer it writes, which is then accepted if and only
  if it is in the range, and lets a boolean through as the integer Python takes it for,
  so that \<^verbatim>\<open>true\<close> is accepted and kept as it is and \<^verbatim>\<open>false\<close> is refused. None, a list, a
  dictionary and a lambda are refused. In a validated message or defaults block the key
  holds the accepted value, and the integer 3 when the key was omitted; a block with an
  integer out of the range is refused as a whole.
\<close>

theorem speed_accepted_values:
  "(cv_int_range 1 5 (PyInt n) = Inr r \<longleftrightarrow> 1 \<le> n \<and> n \<le> 5 \<and> r = PyInt n) \<and>
   (\<not> (1 \<le> n \<and> n \<le> 5) \<longrightarrow> (\<exists>m. cv_int_range 1 5 (PyInt n) = Inl (Invalid m))) \<and>
   (cv_int_range 1 5 (PyBool b) = Inr r \<longleftrightarrow> b \<and> r = PyBool True) \<and>
   (s \<noteq> [] \<and> length s \<le> 18 \<and> list_all is_digit s \<longrightarrow>
      (cv_int_range 1 5 (PyStr s) = Inr r \<longleftrightarrow>
         1 \<le> int_of_digits s \<and> int_of_digits s \<le> 5 \<and> r = PyInt (int_of_digits s))) \<and>
   (v = PyNone \<or> (\<exists>xs. v = PyList xs) \<or> (\<exists>kvs. v = PyDict kvs) \<or> (\<exists>src. v = Lambda src) \<longrightarrow>
      (\<exists>m. cv_int_range 1 5 v = Inl (Invalid m))) \<and>
   ((S = OFFLINE_MESSAGE_SCHEMA \<or> S = DEFAULTS_SCHEMA) \<and> S (PyDict d) = Inr cfg \<longrightarrow>
      (case map_of d CONF_SPEED of
         Some v \<Rightarrow> \<exists>x k. cv_int_range 1 5 v = Inr x \<and> int_of x = Some k \<and> 1 \<le> k \<and> k \<le> 5 \<and>
                          getitem cfg CONF_SPEED = Inr x
       | None \<Rightarrow> getitem cfg CONF_SPEED = Inr (PyInt 3))) \<and>
   ((S = OFFLINE_MESSAGE_SCHEMA \<or> S = DEFAULTS_SCHEMA) \<and>
    map_of d CONF_SPEED = Some (PyInt n) \<and> \<not> (1 \<le> n \<and> n \<le> 5) \<longrightarrow>
      (\<exists>m. S (PyDict d) = Inl (Invalid m)))"
proof (intro conjI impI)
  show "cv_int_range 1 5 (PyInt n) = Inr r \<longleftrightarrow> 1 \<le> n \<and> n \<le> 5 \<and> r = PyInt n"
    by (auto simp: int_range_int)
  show "\<exists>m. cv_int_range 1 5 (PyInt n) = Inl (Invalid m)" if "\<not> (1 \<le> n \<and> n \<le> 5)"
    using that by (rule int_range_int_rejected)
  show "cv_int_range 1 5 (PyBool b) = Inr r \<longleftrightarrow> b \<and> r = PyBool True"
    by (auto simp: int_range_bool)
  show "cv_int_range 1 5 (PyStr s) = Inr r \<longleftrightarrow>
         1 \<le> int_of_digits s \<and> int_of_digits s \<le> 5 \<and> r = PyInt (int_of_digits s)"
    if "s \<noteq> [] \<and> length s \<le> 18 \<and> list_all is_digit s"
    using that by (intro int_range_digits) auto
  show "\<exists>m. cv_int_range 1 5 v = Inl (Invalid m)"
    if "v = PyNone \<or> (\<exists>xs. v = PyList xs) \<or> (\<exists>kvs. v = PyDict kvs) \<or> (\<exists>src. v = Lambda src)"
    using that by (rule int_range_not_a_number)
  show "case map_of d CONF_SPEED of
         Some v \<Rightarrow> \<exists>x k. cv_int_range 1 5 v = Inr x \<and> int_of x = Some k \<and> 1 \<le> k \<and> k \<le> 5 \<and>
                          getitem cfg CONF_SPEED = Inr x
       | None \<Rightarrow> getitem cfg CONF_SPEED = Inr (PyInt 3)"
    if a: "(S = OFFLINE_MESSAGE_SCHEMA \<or> S = DEFAULTS_SCHEMA) \<and> S (PyDict d) = Inr cfg"
  proof -
    from a consider "cv_Schema OFFLINE_MESSAGE_SCHEMA_keys (PyDict d) = Inr cfg"
      | "cv_Schema DEFAULTS_SCHEMA_keys (PyDict d) = Inr cfg"
      by (auto simp: OFFLINE_MESSAGE_SCHEMA_def DEFAULTS_SCHEMA_def)
    then show ?thesis
    proof cases
      case 1
      show ?thesis by (rule schema_int_key [OF 1 distinct_keys(1) speed_keys_mem(1)]) simp_all
    next
      case 2
      show ?thesis by (rule schema_int_key [OF 2 distinct_keys(2) speed_keys_mem(2)]) simp_all
    qed
  qed
  show "\<exists>m. S (PyDict d) = Inl (Invalid m)"
    if a: "(S = OFFLINE_MESSAGE_SCHEMA \<or> S = DEFAULTS_SCHEMA) \<and>
           map_of d CONF_SPEED = Some (PyInt n) \<and> \<not> (1 \<le> n \<and> n \<le> 5)"
    using a schema_int_field_rejected [OF speed_keys_mem(1), of d n]
      schema_int_field_rejected [OF speed_keys_mem(2), of d n]
    by (auto simp: OFFLINE_MESSAGE_SCHEMA_def DEFAULTS_SCHEMA_def)
qed

lemma speed_examples:
  "OFFLINE_MESSAGE_SCHEMA (PyDict [(''text'', PyStr ''hi''), (''speed'', PyStr ''5'')]) =
     Inr (PyDict [(''text'', PyStr ''hi''), (''color'', PyStr ''green''), (''mode'', PyStr ''rotate''),
                  (''duration'', TimePeriodMilliseconds (TimePeriod 10 Seconds)), (''charset'', PyStr ''7high''),
                  (''position'', PyStr ''topline''), (''speed'', PyInt 5)])"
  "DEFAULTS_SCHEMA (PyDict []) =
     Inr (PyDict [(''color'', PyStr ''green''), (''mode'', PyStr ''rotate''), (''charset'', PyStr ''7high''),
                  (''position'', PyStr ''topline''), (''speed'', PyInt 3), (''effect'', PyStr ''twinkle'')])"
  by (simp_all add: schema_defs validator_defs conf_defs list_defs)

text \<open>
  Witness for C6: the integers 5, 6 and 0, the boolean true, the strings \<^verbatim>\<open>"5"\<close> and
  \<^verbatim>\<open>"6"\<close>, None, and a defaults block without speed.
\<close>

theorem speed_accepted_values_witness:
  "cv_int_range 1 5 (PyInt 5) = Inr (PyInt 5) \<and>
   (\<exists>m. cv_int_range 1 5 (PyInt 6) = Inl (Invalid m)) \<and>
   cv_int_range 1 5 (PyBool True) = Inr (PyBool True) \<and>
   cv_int_range 1 5 (PyStr ''5'') = Inr (PyInt 5) \<and>
   (\<forall>r. cv_int_range 1 5 (PyStr ''6'') \<noteq> Inr r) \<and>
   (\<exists>m. cv_int_range 1 5 PyNone = Inl (Invalid m)) \<and>
   getitem (PyDict [(''text'', PyStr ''hi''), (''color'', PyStr ''green''), (''mode'', PyStr ''rotate''),
                  (''duration'', TimePeriodMilliseconds (TimePeriod 10 Seconds)), (''charset'', PyStr ''7high''),
                  (''position'', PyStr ''topline''), (''speed'', PyInt 5)]) CONF_SPEED = Inr (PyInt 5) \<and>
   getitem (PyDict [(''color'', PyStr ''green''), (''mode'', PyStr ''rotate''), (''charset'', PyStr ''7high''),
                  (''position'', PyStr ''topline''), (''speed'', PyInt 3), (''effect'', PyStr ''twinkle'')]) CONF_SPEED
     = Inr (PyInt 3) \<and>
   (\<exists>m. DEFAULTS_SCHEMA (PyDict [(''speed'', PyInt 0)]) = Inl (Invalid m))"
  using speed_accepted_values [of 5 "PyInt 5" True "''5''" "PyInt 5" OFFLINE_MESSAGE_SCHEMA
      "[(''text'', PyStr ''hi''), (''speed'', PyStr ''5'')]"
      "PyDict [(''text'', PyStr ''hi''), (''color'', PyStr ''green''), (''mode'', PyStr ''rotate''),
                  (''duration'', TimePeriodMilliseconds (TimePeriod 10 Seconds)), (''charset'', PyStr ''7high''),
                  (''position'', PyStr ''topline''), (''speed'', PyInt 5)]"]
    speed_accepted_values [of 6 "PyBool True" True "''6''" PyNone DEFAULTS_SCHEMA "[]"
      "PyDict [(''color'', PyStr ''green''), (''mode'', PyStr ''rotate''), (''charset'', PyStr ''7high''),
                  (''position'', PyStr ''topline''), (''speed'', PyInt 3), (''effect'', PyStr ''twinkle'')]"]
    speed_accepted_values [of 6 _ True "''6''" PyNone DEFAULTS_SCHEMA "[]" PyNone]
    speed_accepted_values [of 0 "PyInt 0" True "''6''" PyNone DEFAULTS_SCHEMA "[(''speed'', PyInt 0)]" PyNone]
    speed_examples
  by (simp add: conf_defs is_digit_def int_of_digits_def digit_val_def getitem_def)

text \<open>
  Counterexample for C6 as stated: the string \<^verbatim>\<open>"3"\<close> and the boolean true are no integers
  and are accepted as speeds.
\<close>

theorem speed_not_only_integers_counterexample:
  "cv_int_range 1 5 (PyStr ''3'') = Inr (PyInt 3) \<and>
   cv_int_range 1 5 (PyBool True) = Inr (PyBool True) \<and>
   DEFAULTS_SCHEMA (PyDict [(''speed'', PyStr ''3'')]) =
     Inr (PyDict [(''color'', PyStr ''green''), (''mode'', PyStr ''rotate''), (''charset'', PyStr ''7high''),
                  (''position'', PyStr ''topline''), (''speed'', PyInt 3), (''effect'', PyStr ''twinkle'')]) \<and>
   OFFLINE_MESSAGE_SCHEMA (PyDict [(''text'', PyStr ''hi''), (''speed'', PyBool True)]) =
     Inr (PyDict [(''text'', PyStr ''hi''), (''color'', PyStr ''green''), (''mode'', PyStr ''rotate''),
                  (''duration'', TimePeriodMilliseconds (TimePeriod 10 Seconds)), (''charset'', PyStr ''7high''),
                  (''position'', PyStr ''topline''), (''speed'', PyBool True)])"
  by (simp add: schema_defs validator_defs conf_defs list_defs)

section \<open>The calls for the offline messages\<close>

lemma offline_calls_only:
  "list_all2 (\<lambda>m s. \<exists>args. message_arguments m = map Inr args \<and> s = Add ''add_offline_message'' args) msgs stmts
     \<Longrightarrow> filter is_offline_call stmts = stmts"
  by (induction msgs stmts rule: list_all2_induct) (auto simp: is_offline_call_def)

lemma filter_none: "\<forall>s \<in> set xs. \<not> P s \<Longrightarrow> filter P xs = []"
  by (induction xs) auto

lemma validated_offline_code:
  assumes "CONFIG_SCHEMA (PyDict d) = Inr cfg"
  shows "\<exists>stmts. to_code cfg = Inr stmts \<and>
           list_all2 (\<lambda>m s. \<exists>args. message_arguments m = map Inr args \<and> s = Add ''add_offline_message'' args)
             (offline_messages cfg) (filter is_offline_call stmts)"
proof -
  from assms obtain kvs where cfg: "cfg = PyDict kvs" and ok: "\<forall>e \<in> set CONFIG_SCHEMA_keys. field_ok d kvs e"
    by (rule config_accepted)
  from to_code_validated [OF ok] obtain t a mf mfe dcode ccode pcode msgs ocode where
    msgs: "map_of kvs CONF_OFFLINE_MESSAGES = None \<and> msgs = [] \<or>
            map_of kvs CONF_OFFLINE_MESSAGES = Some (PyList msgs)"
    and code: "to_code (PyDict kvs) =
             Inr ([New_Pvariable (ID None), Register_component, Register_uart_device,
                   Add ''set_sign_type'' [NamespaceMember t],
                   Add ''set_address'' [StringLiteral a],
                   Add ''set_max_files'' [mfe]] @ dcode @ ccode @ pcode @ ocode)"
    and others: "\<forall>s \<in> set (dcode @ ccode @ pcode). \<not> is_offline_call s"
    and calls: "list_all2 (\<lambda>m s. \<exists>args. message_arguments m = map Inr args \<and> s = Add ''add_offline_message'' args) msgs ocode"
    by blast
  from msgs cfg have m: "offline_messages cfg = msgs" by (auto simp: offline_messages_def)
  from others have "filter is_offline_call (dcode @ ccode @ pcode) = []" by (rule filter_none)
  then have "filter is_offline_call ([New_Pvariable (ID None), Register_component, Register_uart_device,
                   Add ''set_sign_type'' [NamespaceMember t],
                   Add ''set_address'' [StringLiteral a],
                   Add ''set_max_files'' [mfe]] @ dcode @ ccode @ pcode @ ocode) = ocode"
    using offline_calls_only [OF calls] by (simp add: is_offline_call_def)
  with code calls m cfg show ?thesis by simp
qed

lemma validated_offline_list:
  assumes "CONFIG_SCHEMA (PyDict d) = Inr cfg" and "map_of d CONF_OFFLINE_MESSAGES = Some (PyList raws)"
  shows "map OFFLINE_MESSAGE_SCHEMA raws = map Inr (offline_messages cfg)"
proof -
  from assms(1) obtain kvs where cfg: "cfg = PyDict kvs" and ok: "\<forall>e \<in> set CONFIG_SCHEMA_keys. field_ok d kvs e"
    by (rule config_accepted)
  from ok config_keys_mem(6) assms(2)
  have "\<exists>r. cv_ensure_list OFFLINE_MESSAGE_SCHEMA (PyList raws) = Inr r \<and> map_of kvs CONF_OFFLINE_MESSAGES = Some r"
    by (auto simp: field_ok_def)
  then obtain rs where "map_of kvs CONF_OFFLINE_MESSAGES = Some (PyList rs)"
    and "map OFFLINE_MESSAGE_SCHEMA raws = map Inr rs"
    by (auto simp: ensure_list_list)
  with cfg show ?thesis by (simp add: offline_messages_def)
qed

lemma omitted_effect:
  assumes "OFFLINE_MESSAGE_SCHEMA (PyDict raw) = Inr m" and "map_of raw CONF_EFFECT = None"
  shows "message_arguments m ! 4 = Inr (StringLiteral [])"
proof -
  from schema_accepts [OF assms(1) [unfolded OFFLINE_MESSAGE_SCHEMA_def] distinct_keys(1)]
  obtain kvs where m: "m = PyDict kvs" and ok: "\<forall>e \<in> set OFFLINE_MESSAGE_SCHEMA_keys. field_ok raw kvs e"
    by auto
  from ok in_keys(5) assms(2) have "map_of kvs CONF_EFFECT = None" by (auto simp: field_ok_def)
  with m show ?thesis by (simp add: message_arguments_def contains_def)
qed

lemma two_messages_example:
  "CONFIG_SCHEMA (PyDict [(''offline_messages'',
      PyList [PyDict [(''text'', PyStr ''one''), (''effect'', PyStr ''Snow'')],
              PyDict [(''text'', PyStr ''two''), (''duration'', PyStr ''5s'')]])]) =
   Inr (PyDict [(''id'', ID None), (''sign_type'', PyStr ''all''), (''address'', PyStr ''00''),
     (''max_files'', PyInt 5),
     (''offline_messages'',
       PyList [PyDict [(''text'', PyStr ''one''), (''color'', PyStr ''green''), (''mode'', PyStr ''rotate''),
                 (''duration'', TimePeriodMilliseconds (TimePeriod 10 Seconds)), (''effect'', PyStr ''snow''),
                 (''charset'', PyStr ''7high''), (''position'', PyStr ''topline''), (''speed'', PyInt 3)],
               PyDict [(''text'', PyStr ''two''), (''color'', PyStr ''green''), (''mode'', PyStr ''rotate''),
                 (''duration'', TimePeriodMilliseconds (TimePeriod 5 Seconds)),
                 (''charset'', PyStr ''7high''), (''position'', PyStr ''topline''), (''speed'', PyInt 3)]]),
     (''uart_id'', ID None)])"
  by (simp add: schema_defs validator_defs conf_defs list_defs)

lemma message_example:
  "OFFLINE_MESSAGE_SCHEMA (PyDict [(''text'', PyStr ''two''), (''duration'', PyStr ''5s'')]) =
     Inr (PyDict [(''text'', PyStr ''two''), (''color'', PyStr ''green''), (''mode'', PyStr ''rotate''),
                 (''duration'', TimePeriodMilliseconds (TimePeriod 5 Seconds)),
                 (''charset'', PyStr ''7high''), (''position'', PyStr ''topline''), (''speed'', PyInt 3)])"
  by (simp add: schema_defs validator_defs conf_defs list_defs)

text \<open>
  C7. For every validated configuration, code generation succeeds and its
  \<^verbatim>\<open>add_offline_message\<close> calls are, in number and in order, the offline messages of the
  configuration: the call for a message passes the literals of its text, color, mode,
  duration, effect, charset, position and speed. When the messages were given as a list,
  the validated messages are the given ones, validated one by one in the given order, so
  that \<open>n\<close> given messages make \<open>n\<close> calls. A message given without effect has the empty
  string as the fifth argument of its call.
\<close>

theorem offline_messages_calls:
  "(CONFIG_SCHEMA (PyDict d) = Inr cfg \<longrightarrow>
     (\<exists>stmts. to_code cfg = Inr stmts \<and>
        length (filter is_offline_call stmts) = length (offline_messages cfg) \<and>
        list_all2 (\<lambda>m s. \<exists>args. message_arguments m = map Inr args \<and> s = Add ''add_offline_message'' args)
          (offline_messages cfg) (filter is_offline_call stmts)) \<and>
     (\<forall>raws. map_of d CONF_OFFLINE_MESSAGES = Some (PyList raws) \<longrightarrow>
        length (offline_messages cfg) = length raws \<and>
        map OFFLINE_MESSAGE_SCHEMA raws = map Inr (offline_messages cfg))) \<and>
   (OFFLINE_MESSAGE_SCHEMA (PyDict raw) = Inr m \<and> map_of raw CONF_EFFECT = None \<longrightarrow>
      message_arguments m ! 4 = Inr (StringLiteral []))"
proof (intro conjI impI allI)
  assume acc: "CONFIG_SCHEMA (PyDict d) = Inr cfg"
  from validated_offline_code [OF acc] obtain stmts where s: "to_code cfg = Inr stmts"
    "list_all2 (\<lambda>m s. \<exists>args. message_arguments m = map Inr args \<and> s = Add ''add_offline_message'' args)
          (offline_messages cfg) (filter is_offline_call stmts)" by blast
  from s(2) have "length (offline_messages cfg) = length (filter is_offline_call stmts)"
    by (rule list_all2_lengthD)
  with s show "\<exists>stmts. to_code cfg = Inr stmts \<and>
        length (filter is_offline_call stmts) = length (offline_messages cfg) \<and>
        list_all2 (\<lambda>m s. \<exists>args. message_arguments m = map Inr args \<and> s = Add ''add_offline_message'' args)
          (offline_messages cfg) (filter is_offline_call stmts)" by auto
  fix raws
  assume raws: "map_of d CONF_OFFLINE_MESSAGES = Some (PyList raws)"
  from validated_offline_list [OF acc raws]
  show eq: "map OFFLINE_MESSAGE_SCHEMA raws = map Inr (offline_messages cfg)" .
  from map_eq_imp_length_eq [OF eq] show "length (offline_messages cfg) = length raws" by simp
next
  assume "OFFLINE_MESSAGE_SCHEMA (PyDict raw) = Inr m \<and> map_of raw CONF_EFFECT = None"
  then show "message_arguments m ! 4 = Inr (StringLiteral [])"
    using omitted_effect by blast
qed

text \<open>Witness for C7: two messages, the first with an effect, the second without.\<close>

theorem offline_messages_calls_witness:
  "\<exists>stmts.
     to_code (PyDict [(''id'', ID None), (''sign_type'', PyStr ''all''), (''address'', PyStr ''00''),
     (''max_files'', PyInt 5),
     (''offline_messages'',
       PyList [PyDict [(''text'', PyStr ''one''), (''color'', PyStr ''green''), (''mode'', PyStr ''rotate''),
                 (''duration'', TimePeriodMilliseconds (TimePeriod 10 Seconds)), (''effect'', PyStr ''snow''),
                 (''charset'', PyStr ''7high''), (''position'', PyStr ''topline''), (''speed'', PyInt 3)],
               PyDict [(''text'', PyStr ''two''), (''color'', PyStr ''green''), (''mode'', PyStr ''rotate''),
                 (''duration'', TimePeriodMilliseconds (TimePeriod 5 Seconds)),
                 (''charset'', PyStr ''7high''), (''position'', PyStr ''topline''), (''speed'', PyInt 3)]]),
     (''uart_id'', ID None)]) = Inr stmts \<and>
     filter is_offline_call stmts =
       [Add ''add_offline_message''
          [StringLiteral ''one'', StringLiteral ''green'', StringLiteral ''rotate'', IntLiteral 10000,
           StringLiteral ''snow'', StringLiteral ''7high'', StringLiteral ''topline'', IntLiteral 3],
        Add ''add_offline_message''
          [StringLiteral ''two'', StringLiteral ''green'', StringLiteral ''rotate'', IntLiteral 5000,
           StringLiteral [], StringLiteral ''7high'', StringLiteral ''topline'', IntLiteral 3]]"
  using offline_messages_calls [of
      "[(''offline_messages'',
      PyList [PyDict [(''text'', PyStr ''one''), (''effect'', PyStr ''Snow'')],
              PyDict [(''text'', PyStr ''two''), (''duration'', PyStr ''5s'')]])]"
      "PyDict [(''id'', ID None), (''sign_type'', PyStr ''all''), (''address'', PyStr ''00''),
     (''max_files'', PyInt 5),
     (''offline_messages'',
       PyList [PyDict [(''text'', PyStr ''one''), (''color'', PyStr ''green''), (''mode'', PyStr ''rotate''),
                 (''duration'', TimePeriodMilliseconds (TimePeriod 10 Seconds)), (''effect'', PyStr ''snow''),
                 (''charset'', PyStr ''7high''), (''position'', PyStr ''topline''), (''speed'', PyInt 3)],
               PyDict [(''text'', PyStr ''two''), (''color'', PyStr ''green''), (''mode'', PyStr ''rotate''),
                 (''duration'', TimePeriodMilliseconds (TimePeriod 5 Seconds)),
                 (''charset'', PyStr ''7high''), (''position'', PyStr ''topline''), (''speed'', PyInt 3)]]),
     (''uart_id'', ID None)]"
      "[(''text'', PyStr ''two''), (''duration'', PyStr ''5s'')]"
      "PyDict [(''text'', PyStr ''two''), (''color'', PyStr ''green''), (''mode'', PyStr ''rotate''),
                 (''duration'', TimePeriodMilliseconds (TimePeriod 5 Seconds)),
                 (''charset'', PyStr ''7high''), (''position'', PyStr ''topline''), (''speed'', PyInt 3)]"]
    two_messages_example message_example
  by (auto simp: offline_messages_def message_arguments_def getitem_def contains_def conf_defs
      list_all2_Cons1 map_eq_Cons_conv)

section \<open>The number of files and the number of messages\<close>

lemma small_config_accepted:
  assumes n: "1 \<le> n" "n \<le> 26" and msgs: "map OFFLINE_MESSAGE_SCHEMA raws = map Inr msgs"
  shows "CONFIG_SCHEMA (PyDict [(CONF_MAX_FILES, PyInt n), (CONF_OFFLINE_MESSAGES, PyList raws)]) =
           Inr (PyDict [(CONF_ID, ID None), (CONF_SIGN_TYPE, PyStr ''all''), (CONF_ADDRESS, PyStr ''00''),
                        (CONF_MAX_FILES, PyInt n), (CONF_OFFLINE_MESSAGES, PyList msgs),
                        (''uart_id'', ID None)])"
proof -
  from n have a: "cv_int_range 1 26 (PyInt n) = Inr (PyInt n)" by (simp add: int_range_int)
  from msgs have b: "cv_ensure_list OFFLINE_MESSAGE_SCHEMA (PyList raws) = Inr (PyList msgs)"
    by (simp add: ensure_list_list)
  have c: "cv_one_of (map fst SIGN_TYPES) True (PyStr ''all'') = Inr (PyStr ''all'')"
    "validate_address (PyStr ''00'') = Inr (PyStr ''00'')"
    "cv_declare_id PyNone = Inr (ID None)" "cv_use_id PyNone = Inr (ID None)"
    by (simp_all add: validator_defs list_defs)
  show ?thesis
    by (simp add: CONFIG_SCHEMA_def CONFIG_SCHEMA_keys_eq COMPONENT_SCHEMA_def UART_DEVICE_SCHEMA_def
        GenerateID_def cv_Schema_def validate_key_def a b c conf_defs)
qed

lemma all_valid_messages:
  "\<forall>raw \<in> set raws. \<exists>m. OFFLINE_MESSAGE_SCHEMA raw = Inr m \<Longrightarrow>
     \<exists>msgs. map OFFLINE_MESSAGE_SCHEMA raws = map Inr msgs"
proof (induction raws)
  case Nil
  then show ?case by simp
next
  case (Cons raw raws)
  then obtain m msgs where "OFFLINE_MESSAGE_SCHEMA raw = Inr m" "map OFFLINE_MESSAGE_SCHEMA raws = map Inr msgs"
    by auto
  then have "map OFFLINE_MESSAGE_SCHEMA (raw # raws) = map Inr (m # msgs)" by simp
  then show ?case by blast
qed

text \<open>
  C3, as the code has it. Validation checks \<^verbatim>\<open>max_files\<close> against the range from 1 to 26
  only, whatever the number of offline messages: a configuration with \<^verbatim>\<open>max_files\<close> \<open>n\<close> in
  that range, also below 3, and any list of valid offline messages is accepted and
  reaches code generation, which sets \<^verbatim>\<open>max_files\<close> to \<open>n\<close> in its sixth statement and adds
  every message.
\<close>

theorem max_files_checked_alone:
  "1 \<le> n \<and> n \<le> 26 \<and> (\<forall>raw \<in> set raws. \<exists>m. OFFLINE_MESSAGE_SCHEMA raw = Inr m) \<longrightarrow>
     (\<exists>cfg stmts.
        CONFIG_SCHEMA (PyDict [(CONF_MAX_FILES, PyInt n), (CONF_OFFLINE_MESSAGES, PyList raws)]) = Inr cfg \<and>
        build (PyDict [(CONF_MAX_FILES, PyInt n), (CONF_OFFLINE_MESSAGES, PyList raws)]) = Inr stmts \<and>
        stmts ! 5 = Add ''set_max_files'' [IntLiteral n] \<and>
        length (filter is_offline_call stmts) = length raws)"
proof
  let ?raw = "PyDict [(CONF_MAX_FILES, PyInt n), (CONF_OFFLINE_MESSAGES, PyList raws)]"
  assume a: "1 \<le> n \<and> n \<le> 26 \<and> (\<forall>raw \<in> set raws. \<exists>m. OFFLINE_MESSAGE_SCHEMA raw = Inr m)"
  then obtain msgs where msgs: "map OFFLINE_MESSAGE_SCHEMA raws = map Inr msgs"
    using all_valid_messages by blast
  let ?kvs = "[(CONF_ID, ID None), (CONF_SIGN_TYPE, PyStr ''all''), (CONF_ADDRESS, PyStr ''00''),
               (CONF_MAX_FILES, PyInt n), (CONF_OFFLINE_MESSAGES, PyList msgs), (''uart_id'', ID None)]"
  from a msgs have acc: "CONFIG_SCHEMA ?raw = Inr (PyDict ?kvs)" by (simp add: small_config_accepted)
  then obtain kvs where "PyDict ?kvs = PyDict kvs" and ok: "\<forall>e \<in> set CONFIG_SCHEMA_keys. field_ok
      [(CONF_MAX_FILES, PyInt n), (CONF_OFFLINE_MESSAGES, PyList raws)] kvs e"
    by (rule config_accepted)
  then have ok: "\<forall>e \<in> set CONFIG_SCHEMA_keys. field_ok
      [(CONF_MAX_FILES, PyInt n), (CONF_OFFLINE_MESSAGES, PyList raws)] ?kvs e" by simp
  from to_code_validated [OF ok] obtain t a mf mfe dcode ccode pcode ms ocode where
    mf: "map_of ?kvs CONF_MAX_FILES = Some mf" "safe_exp mf = Inr mfe"
    and code: "to_code (PyDict ?kvs) =
             Inr ([New_Pvariable (ID None), Register_component, Register_uart_device,
                   Add ''set_sign_type'' [NamespaceMember t],
                   Add ''set_address'' [StringLiteral a],
                   Add ''set_max_files'' [mfe]] @ dcode @ ccode @ pcode @ ocode)"
    by blast
  from mf have "mfe = IntLiteral n" by (auto simp: conf_defs)
  with code obtain stmts where stmts: "to_code (PyDict ?kvs) = Inr stmts"
    "stmts ! 5 = Add ''set_max_files'' [IntLiteral n]"
    by simp
  from validated_offline_code [OF acc] stmts(1)
  have "list_all2 (\<lambda>m s. \<exists>args. message_arguments m = map Inr args \<and> s = Add ''add_offline_message'' args)
          (offline_messages (PyDict ?kvs)) (filter is_offline_call stmts)" by simp
  then have "length (filter is_offline_call stmts) = length (offline_messages (PyDict ?kvs))"
    by (simp add: list_all2_lengthD)
  also have "offline_messages (PyDict ?kvs) = msgs" by (simp add: offline_messages_def conf_defs)
  also from msgs have "length msgs = length raws" by (metis length_map)
  finally have "length (filter is_offline_call stmts) = length raws" .
  with acc stmts show "\<exists>cfg stmts.
        CONFIG_SCHEMA ?raw = Inr cfg \<and> build ?raw = Inr stmts \<and>
        stmts ! 5 = Add ''set_max_files'' [IntLiteral n] \<and>
        length (filter is_offline_call stmts) = length raws"
    by (simp add: build_def)
qed

text \<open>Witness for C3: \<^verbatim>\<open>max_files\<close> 2 with three offline messages.\<close>

theorem max_files_checked_alone_witness:
  "\<exists>cfg stmts.
     CONFIG_SCHEMA (PyDict [(''max_files'', PyInt 2), (''offline_messages'',
        PyList [PyDict [(''text'', PyStr ''two''), (''duration'', PyStr ''5s'')],
                PyDict [(''text'', PyStr ''two''), (''duration'', PyStr ''5s'')],
                PyDict [(''text'', PyStr ''two''), (''duration'', PyStr ''5s'')]])]) = Inr cfg \<and>
     build (PyDict [(''max_files'', PyInt 2), (''offline_messages'',
        PyList [PyDict [(''text'', PyStr ''two''), (''duration'', PyStr ''5s'')],
                PyDict [(''text'', PyStr ''two''), (''duration'', PyStr ''5s'')],
                PyDict [(''text'', PyStr ''two''), (''duration'', PyStr ''5s'')]])]) = Inr stmts \<and>
     stmts ! 5 = Add ''set_max_files'' [IntLiteral 2] \<and>
     length (filter is_offline_call stmts) = 3"
  using max_files_checked_alone [of 2 "[PyDict [(''text'', PyStr ''two''), (''duration'', PyStr ''5s'')],
                PyDict [(''text'', PyStr ''two''), (''duration'', PyStr ''5s'')],
                PyDict [(''text'', PyStr ''two''), (''duration'', PyStr ''5s'')]]"]
    message_example
  by (auto simp: conf_defs numeral_3_eq_3)

text \<open>
  Counterexample for C3 as stated: \<^verbatim>\<open>max_files\<close> 1 with one offline message is not refused;
  code is generated for it.
\<close>

theorem small_max_files_counterexample:
  "build (PyDict [(''max_files'', PyInt 1), (''offline_messages'', PyList [PyDict [(''text'', PyStr ''hi'')]])]) =
     Inr [New_Pvariable (ID None), Register_component, Register_uart_device,
          Add ''set_sign_type'' [NamespaceMember ''ST_ALL''],
          Add ''set_address'' [StringLiteral ''00''],
          Add ''set_max_files'' [IntLiteral 1],
          Add ''add_offline_message''
            [StringLiteral ''hi'', StringLiteral ''green'', StringLiteral ''rotate'', IntLiteral 10000,
             StringLiteral [], StringLiteral ''7high'', StringLiteral ''topline'', IntLiteral 3]]"
  by (simp add: code_defs schema_defs validator_defs conf_defs list_defs)

section \<open>The duration of a priority message\<close>

lemma priority_code_exact:
  assumes "PRIORITY_SCHEMA x = Inr r" and "map_of kvs CONF_PRIORITY = Some r"
  shows "\<exists>w dd. getitem r CONF_DEFAULT_DURATION = Inr (TimePeriodMilliseconds dd) \<and>
           to_code_priority (PyDict kvs) =
             Inr [Add ''set_priority_warning_duration'' [IntLiteral (total_milliseconds w)],
                  Add ''set_priority_default_duration'' [IntLiteral (total_milliseconds dd)]]"
  using priority_fields [OF assms(1)] assms(2)
  by (auto simp: to_code_priority_def contains_def getitem_def)

lemma action_keys_mem:
  "(CONF_ID, GenerateID, cv_use_id) \<in> set PRIORITY_MESSAGE_ACTION_SCHEMA_keys"
  "(CONF_TEXT, Required, cv_templatable cv_string) \<in> set PRIORITY_MESSAGE_ACTION_SCHEMA_keys"
  "(CONF_DURATION, Optional (Some (PyStr ''25s'')), cv_templatable cv_positive_time_period_seconds)
     \<in> set PRIORITY_MESSAGE_ACTION_SCHEMA_keys"
  by (simp_all add: PRIORITY_MESSAGE_ACTION_SCHEMA_keys_def)

lemma cv_use_id_Inr: "cv_use_id v = Inr r \<Longrightarrow> r = ID None"
  by (cases v) (auto simp: cv_use_id_def check_not_templatable_def)

lemma templatable_string_Inr: "cv_templatable cv_string v = Inr r \<Longrightarrow> \<exists>s. r = PyStr s"
  by (cases v) (auto simp: cv_templatable_def cv_string_def check_not_templatable_def)

lemma default_action_duration:
  "cv_templatable cv_positive_time_period_seconds (PyStr ''25s'') = Inr (TimePeriodSeconds (TimePeriod 25 Seconds))"
  by (simp add: validator_defs)

lemma priority_examples:
  "PRIORITY_MESSAGE_ACTION_SCHEMA (PyDict [(''text'', PyStr ''hi'')]) =
     Inr (PyDict [(''id'', ID None), (''text'', PyStr ''hi''),
                  (''duration'', TimePeriodSeconds (TimePeriod 25 Seconds))])"
  "CONFIG_SCHEMA (PyDict [(''priority'', PyDict [(''default_duration'', PyStr ''40s'')])]) =
     Inr (PyDict [(''id'', ID None), (''sign_type'', PyStr ''all''), (''address'', PyStr ''00''),
                  (''max_files'', PyInt 5),
                  (''priority'', PyDict [(''warning_duration'', TimePeriodMilliseconds (TimePeriod 2500 Milliseconds)),
                                         (''default_duration'', TimePeriodMilliseconds (TimePeriod 40 Seconds))]),
                  (''uart_id'', ID None)])"
  by (simp_all add: schema_defs validator_defs conf_defs list_defs)

text \<open>
  C2, as the code has it. When the caller of the action \<^verbatim>\<open>betabrite.priority\<close> gives no
  duration, the schema of the action fills in its own default, 25 seconds, and
  \<^verbatim>\<open>set_duration\<close> receives the integer 25, a number of seconds, whatever the component's
  configuration says. The configured \<^verbatim>\<open>default_duration\<close> of the priority block reaches the
  component through \<^verbatim>\<open>set_priority_default_duration\<close> only, as a number of milliseconds.
\<close>

theorem priority_action_default_duration:
  "(PRIORITY_MESSAGE_ACTION_SCHEMA (PyDict a) = Inr acfg \<and> map_of a CONF_DURATION = None \<longrightarrow>
      (\<exists>s. build_priority_action (PyDict a) =
              Inr [New_Pvariable (ID None), Add ''set_message'' [StringLiteral s],
                   Add ''set_duration'' [IntLiteral 25]])) \<and>
   (CONFIG_SCHEMA (PyDict d) = Inr cfg \<and> getitem cfg CONF_PRIORITY = Inr p \<longrightarrow>
      (\<exists>stmts dd. to_code cfg = Inr stmts \<and>
         getitem p CONF_DEFAULT_DURATION = Inr (TimePeriodMilliseconds dd) \<and>
         Add ''set_priority_default_duration'' [IntLiteral (total_milliseconds dd)] \<in> set stmts))"
proof (intro conjI impI)
  assume a: "PRIORITY_MESSAGE_ACTION_SCHEMA (PyDict a) = Inr acfg \<and> map_of a CONF_DURATION = None"
  from schema_accepts [OF a [THEN conjunct1, unfolded PRIORITY_MESSAGE_ACTION_SCHEMA_def] distinct_keys(6)]
  obtain kvs where acfg: "acfg = PyDict kvs"
    and ok: "\<forall>e \<in> set PRIORITY_MESSAGE_ACTION_SCHEMA_keys. field_ok a kvs e" by auto
  have "\<exists>x r. cv_use_id x = Inr r \<and> map_of kvs CONF_ID = Some r"
    by (rule field_present [OF ok [rule_format, OF action_keys_mem(1)]]) (simp add: GenerateID_def)
  then have i: "map_of kvs CONF_ID = Some (ID None)" by (auto dest: cv_use_id_Inr)
  have "\<exists>x r. cv_templatable cv_string x = Inr r \<and> map_of kvs CONF_TEXT = Some r"
    by (rule field_present [OF ok [rule_format, OF action_keys_mem(2)]]) simp
  then obtain s where s: "map_of kvs CONF_TEXT = Some (PyStr s)" by (auto dest: templatable_string_Inr)
  from ok [rule_format, OF action_keys_mem(3)] a
  have du: "map_of kvs CONF_DURATION = Some (TimePeriodSeconds (TimePeriod 25 Seconds))"
    by (simp add: field_ok_def default_action_duration)
  from a acfg i s du show "\<exists>s. build_priority_action (PyDict a) =
              Inr [New_Pvariable (ID None), Add ''set_message'' [StringLiteral s],
                   Add ''set_duration'' [IntLiteral 25]]"
    by (simp add: build_priority_action_def betabrite_priority_action_to_code_def getitem_def cg_templatable_def)
next
  assume c: "CONFIG_SCHEMA (PyDict d) = Inr cfg \<and> getitem cfg CONF_PRIORITY = Inr p"
  then obtain kvs where cfg: "cfg = PyDict kvs" and ok: "\<forall>e \<in> set CONFIG_SCHEMA_keys. field_ok d kvs e"
    by (auto elim: config_accepted)
  from c cfg have p: "map_of kvs CONF_PRIORITY = Some p" by (auto simp: getitem_def split: option.splits)
  with field_optional [OF ok [rule_format, OF config_keys_mem(8)]]
  obtain x where x: "PRIORITY_SCHEMA x = Inr p" by auto
  from priority_code_exact [OF x p] obtain w dd where
    dd: "getitem p CONF_DEFAULT_DURATION = Inr (TimePeriodMilliseconds dd)"
    and pc: "to_code_priority (PyDict kvs) =
             Inr [Add ''set_priority_warning_duration'' [IntLiteral (total_milliseconds w)],
                  Add ''set_priority_default_duration'' [IntLiteral (total_milliseconds dd)]]" by blast
  from to_code_validated [OF ok] obtain t a mfe dcode ccode pcode ocode where
    "to_code (PyDict kvs) =
             Inr ([New_Pvariable (ID None), Register_component, Register_uart_device,
                   Add ''set_sign_type'' [NamespaceMember t],
                   Add ''set_address'' [StringLiteral a],
                   Add ''set_max_files'' [mfe]] @ dcode @ ccode @ pcode @ ocode)"
    "to_code_priority (PyDict kvs) = Inr pcode"
    by blast
  with pc cfg dd show "\<exists>stmts dd. to_code cfg = Inr stmts \<and>
         getitem p CONF_DEFAULT_DURATION = Inr (TimePeriodMilliseconds dd) \<and>
         Add ''set_priority_default_duration'' [IntLiteral (total_milliseconds dd)] \<in> set stmts"
    by auto
qed

text \<open>Witness for C2: an action with a text only, and a component with a default of 40 seconds.\<close>

theorem priority_action_default_duration_witness:
  "build_priority_action (PyDict [(''text'', PyStr ''hi'')]) =
     Inr [New_Pvariable (ID None), Add ''set_message'' [StringLiteral ''hi''],
          Add ''set_duration'' [IntLiteral 25]] \<and>
   (\<exists>stmts. to_code (PyDict [(''id'', ID None), (''sign_type'', PyStr ''all''), (''address'', PyStr ''00''),
                  (''max_files'', PyInt 5),
                  (''priority'', PyDict [(''warning_duration'', TimePeriodMilliseconds (TimePeriod 2500 Milliseconds)),
                                         (''default_duration'', TimePeriodMilliseconds (TimePeriod 40 Seconds))]),
                  (''uart_id'', ID None)]) = Inr stmts \<and>
      Add ''set_priority_default_duration'' [IntLiteral 40000] \<in> set stmts)"
  using priority_action_default_duration [of "[(''text'', PyStr ''hi'')]"
      "PyDict [(''id'', ID None), (''text'', PyStr ''hi''),
                  (''duration'', TimePeriodSeconds (TimePeriod 25 Seconds))]"
      "[(''priority'', PyDict [(''default_duration'', PyStr ''40s'')])]"
      "PyDict [(''id'', ID None), (''sign_type'', PyStr ''all''), (''address'', PyStr ''00''),
                  (''max_files'', PyInt 5),
                  (''priority'', PyDict [(''warning_duration'', TimePeriodMilliseconds (TimePeriod 2500 Milliseconds)),
                                         (''default_duration'', TimePeriodMilliseconds (TimePeriod 40 Seconds))]),
                  (''uart_id'', ID None)]"
      "PyDict [(''warning_duration'', TimePeriodMilliseconds (TimePeriod 2500 Milliseconds)),
               (''default_duration'', TimePeriodMilliseconds (TimePeriod 40 Seconds))]"]
    priority_examples
  by (auto simp: conf_defs getitem_def build_priority_action_def betabrite_priority_action_to_code_def cg_templatable_def)

text \<open>
  Counterexample for C2 as stated: with a configured default of 40 seconds (40000
  milliseconds for the component) the action without duration still delivers 25.
\<close>

theorem priority_action_duration_counterexample:
  "build_priority_action (PyDict [(''text'', PyStr ''hi'')]) =
     Inr [New_Pvariable (ID None), Add ''set_message'' [StringLiteral ''hi''],
          Add ''set_duration'' [IntLiteral 25]] \<and>
   build (PyDict [(''priority'', PyDict [(''default_duration'', PyStr ''40s'')])]) =
     Inr [New_Pvariable (ID None), Register_component, Register_uart_device,
          Add ''set_sign_type'' [NamespaceMember ''ST_ALL''],
          Add ''set_address'' [StringLiteral ''00''],
          Add ''set_max_files'' [IntLiteral 5],
          Add ''set_priority_warning_duration'' [IntLiteral 2500],
          Add ''set_priority_default_duration'' [IntLiteral 40000]]"
  by (simp add: code_defs schema_defs validator_defs conf_defs list_defs)

section \<open>The titles of the news\<close>







section \<open>Publishing\<close>




section \<open>The trivia question\<close>






end
